theory Spec2Isabelle
  imports Main
begin

section \<open>Values of the JavaScript runtime\<close>

text \<open>
  A \<open>Date\<close> holds a time value in milliseconds since the epoch, or is invalid
  (its time value is NaN). Strings are byte lists; the Korean messages of the source
  are written as their UTF-8 bytes.
\<close>

type_synonym timestamp = int

datatype js_date = InvalidDate | ValidDate timestamp

text \<open>
  A thrown value: an \<open>Error\<close> object with its message (a \<open>RangeError\<close> or a
  \<open>TypeError\<close> is one too: \<open>instanceof Error\<close> holds), or any other value.
\<close>

datatype js_exn = JsError string | NonError

text \<open>
  The built-ins of the runtime the code calls, taken as parameters: the \<open>Date\<close>
  constructor on a string, \<open>toISOString\<close> of a valid date, \<open>String(d)\<close> of a date
  (what a template literal inserts), the local calendar date \<open>YYYY-MM-DD\<close> of a date
  (dayjs \<open>format\<close>; in the second copy of the repository class the same string is
  put together from \<open>getFullYear\<close>, \<open>getMonth\<close> and \<open>getDate\<close>), and
  \<open>d.setHours(d.getHours() + 1)\<close> on a valid time value.
\<close>

record js_runtime =
  newDate :: "string \<Rightarrow> js_date"
  toISOString :: "timestamp \<Rightarrow> string"
  dateToString :: "js_date \<Rightarrow> string"
  formatLocalDate :: "js_date \<Rightarrow> string"
  addHour :: "timestamp \<Rightarrow> timestamp"

definition invalid_time_value :: string where
  "invalid_time_value = ''Invalid time value''"

text \<open>\<open>d.toISOString()\<close> throws a RangeError on an invalid date.\<close>

definition date_toISOString :: "js_runtime \<Rightarrow> js_date \<Rightarrow> js_exn + string" where
  "date_toISOString rt d =
     (case d of
        InvalidDate \<Rightarrow> Inl (JsError invalid_time_value)
      | ValidDate t \<Rightarrow> Inr (toISOString rt t))"

text \<open>\<open>s.split('T')[0]\<close>: the part of \<open>s\<close> before its first \<open>T\<close> (all of it when there is none).\<close>

definition split_T_first :: "string \<Rightarrow> string" where
  "split_T_first s = takeWhile (\<lambda>c. c \<noteq> CHR ''T'') s"

section \<open>ReservationRepository\<close>

text \<open>
  Modelled from the spec: the type of \<open>status\<close> is declared in IReservation, which is
  not among the sources; the spec names it a small enum with Confirmed and Cancelled.
\<close>

datatype status = Confirmed | Cancelled

text \<open>The fields of IReservation, which the ReservationEntity constructor copies one by one.\<close>

record reservation =
  r_id :: nat
  r_userId :: string
  r_roomId :: int
  r_startTime :: timestamp
  r_endTime :: timestamp
  r_status :: status
  r_regdate :: timestamp

record available_room =
  ar_roomId :: int
  isAvailable :: bool
  conflictingReservations :: "reservation list"

definition AVAILABLE_ROOMS :: "int list" where
  "AVAILABLE_ROOMS = [1, 4, 5, 6]"

text \<open>
  The reservation table behind Prisma: its rows, or the error every query throws
  (connection lost, and the like). \<open>findMany\<close> gives the rows its \<open>where\<close>
  accepts. Without \<open>orderBy\<close> Prisma promises no order; the list here keeps the order
  of the rows, and a statement about a query is to be read up to that order.
\<close>

type_synonym database = "js_exn + reservation list"

definition findMany :: "database \<Rightarrow> (reservation \<Rightarrow> bool) \<Rightarrow> js_exn + reservation list" where
  "findMany db wh = (case db of Inl e \<Rightarrow> Inl e | Inr rows \<Rightarrow> Inr (filter wh rows))"

text \<open>Prisma refuses an invalid \<open>Date\<close> in a filter with a validation error.\<close>

definition prisma_invalid_date :: js_exn where
  "prisma_invalid_date = JsError ''Provided Date object is invalid''"

subsection \<open>findReservationsByDateTime\<close>

definition find_failed_prefix :: string where
  "find_failed_prefix = ''Failed to find reservations: ''"

definition findReservationsByDateTime_try ::
  "js_runtime \<Rightarrow> database \<Rightarrow> js_date \<Rightarrow> string \<Rightarrow> string \<Rightarrow> js_exn + reservation list" where
  "findReservationsByDateTime_try rt db targetDate startHour endHour =
     (let startDateTime = formatLocalDate rt targetDate @ '' '' @ startHour;
          endDateTime = formatLocalDate rt targetDate @ '' '' @ endHour
      in case (newDate rt startDateTime, newDate rt endDateTime) of
           (ValidDate s, ValidDate e) \<Rightarrow>
             findMany db (\<lambda>r. r_startTime r \<ge> s \<and> r_endTime r \<le> e)
         | _ \<Rightarrow> Inl prisma_invalid_date)"

definition findReservationsByDateTime ::
  "js_runtime \<Rightarrow> database \<Rightarrow> js_date \<Rightarrow> string \<Rightarrow> string \<Rightarrow> js_exn + reservation list" where
  "findReservationsByDateTime rt db targetDate startHour endHour =
     (case findReservationsByDateTime_try rt db targetDate startHour endHour of
        Inr reservations \<Rightarrow> Inr reservations
      | Inl (JsError m) \<Rightarrow> Inl (JsError (find_failed_prefix @ m))
      | Inl NonError \<Rightarrow> Inl (JsError (find_failed_prefix @ ''Unknown error'')))"

subsection \<open>findAvailableRooms\<close>

text \<open>The message of the error findAvailableRooms throws: "an error occurred while searching rooms".\<close>

definition room_search_failed :: string where
  "room_search_failed =
     [CHR 0xEB, CHR 0xB0, CHR 0xA9, CHR 0x20, CHR 0xEA, CHR 0xB2, CHR 0x80, CHR 0xEC,
      CHR 0x83, CHR 0x89, CHR 0x20, CHR 0xEC, CHR 0xA4, CHR 0x91, CHR 0x20, CHR 0xEC,
      CHR 0x98, CHR 0xA4, CHR 0xEB, CHR 0xA5, CHR 0x98, CHR 0xEA, CHR 0xB0, CHR 0x80,
      CHR 0x20, CHR 0xEB, CHR 0xB0, CHR 0x9C, CHR 0xEC, CHR 0x83, CHR 0x9D, CHR 0xED,
      CHR 0x96, CHR 0x88, CHR 0xEC, CHR 0x8A, CHR 0xB5, CHR 0xEB, CHR 0x8B, CHR 0x88,
      CHR 0xEB, CHR 0x8B, CHR 0xA4, CHR 0x2E]"

definition findAvailableRooms_try ::
  "js_runtime \<Rightarrow> database \<Rightarrow> js_date \<Rightarrow> string \<Rightarrow> js_exn + available_room list" where
  "findAvailableRooms_try rt db searchDate startTime =
     (case date_toISOString rt searchDate of
        Inl e \<Rightarrow> Inl e
      | Inr isoString \<Rightarrow>
          (case newDate rt (split_T_first isoString @ ''T'' @ startTime) of
             InvalidDate \<Rightarrow> Inl prisma_invalid_date
           | ValidDate searchDateTime \<Rightarrow>
               (let endDateTime = addHour rt searchDateTime
                in case findMany db
                          (\<lambda>r. r_startTime r \<le> endDateTime \<and> r_endTime r > searchDateTime) of
                     Inl e \<Rightarrow> Inl e
                   | Inr reservations \<Rightarrow>
                       Inr (map (\<lambda>roomId.
                              let roomReservations =
                                    filter (\<lambda>r. r_roomId r = roomId) reservations
                              in \<lparr>ar_roomId = roomId,
                                  isAvailable = (length roomReservations = 0),
                                  conflictingReservations = roomReservations\<rparr>)
                            AVAILABLE_ROOMS))))"

definition findAvailableRooms ::
  "js_runtime \<Rightarrow> database \<Rightarrow> js_date \<Rightarrow> string \<Rightarrow> js_exn + available_room list" where
  "findAvailableRooms rt db searchDate startTime =
     (case findAvailableRooms_try rt db searchDate startTime of
        Inr availableRooms \<Rightarrow> Inr availableRooms
      | Inl e \<Rightarrow> Inl (JsError room_search_failed))"

section \<open>SQLiteReservationTool\<close>

subsection \<open>Numbers and strings\<close>

text \<open>\<open>String(n)\<close> of an integral number: its decimal digits, with a sign when negative.\<close>

definition digit_char :: "nat \<Rightarrow> char" where
  "digit_char d = ''0123456789'' ! d"

fun nat_to_string :: "nat \<Rightarrow> string" where
  "nat_to_string n =
     (if n < 10 then [digit_char n]
      else nat_to_string (n div 10) @ [digit_char (n mod 10)])"

declare nat_to_string.simps [simp del]

definition number_to_string :: "int \<Rightarrow> string" where
  "number_to_string i =
     (if i < 0 then ''-'' @ nat_to_string (nat (- i)) else nat_to_string (nat i))"

text \<open>\<open>s.padStart(2, '0')\<close>.\<close>

definition padStart2 :: "string \<Rightarrow> string" where
  "padStart2 s = replicate (2 - length s) (CHR ''0'') @ s"

subsection \<open>Requests, responses and the tool's state\<close>

text \<open>A \<open>string | Date\<close> argument.\<close>

datatype date_arg = DateText string | DateObject js_date

record create_info =
  info_date :: date_arg
  info_startTime :: string
  info_duration :: int
  info_roomId :: int
  info_userName :: string
  info_content :: string

text \<open>The body posted to \<open>/api/reservation/create\<close>.\<close>

record create_request =
  rq_date :: string
  rq_startTime :: string
  rq_duration :: int
  rq_roomId :: int
  rq_userName :: string
  rq_content :: string

text \<open>The body posted to \<open>/api/reservation/find-next\<close>.\<close>

record find_next_request =
  fn_date :: string
  fn_timeRange :: string
  fn_preferredRoom :: "int option"

datatype api_call = CreateCall create_request | FindNextCall find_next_request

text \<open>An element of \<open>result.data\<close>; the code reads its \<open>roomId\<close> and \<open>startTime\<close>.\<close>

record reserved_slot =
  rs_roomId :: int
  rs_startTime :: string
  rs_endTime :: string

text \<open>
  What the code reads of a response body: \<open>error\<close> (absent: \<open>None\<close>), \<open>success\<close>,
  and \<open>data\<close> when it is an array (\<open>None\<close> otherwise).
\<close>

record response_body =
  body_error :: "string option"
  body_success :: bool
  body_data :: "reserved_slot list option"

text \<open>
  A response: its \<open>ok\<close> flag and what reading its body gives. \<open>Inl\<close> stands for a
  body that cannot be read: \<open>json()\<close> is rejected, or the body is null, so that the
  first property read of it throws.
\<close>

record http_response =
  ok :: bool
  json_body :: "js_exn + response_body"

text \<open>
  The collaborators that are not among the sources, taken as parameters: \<open>fetch\<close> (the
  only way the tool reaches the store; \<open>Inl\<close> is a rejected promise),
  \<open>DateParsingTool.parseDateString\<close> (it may throw) and
  \<open>ReservationValidator.validateDate\<close> (an error text, or nothing). The logger is
  taken to do nothing.
\<close>

record collaborators =
  fetch :: "api_call \<Rightarrow> js_exn + http_response"
  parseDateString :: "string \<Rightarrow> js_exn + js_date"
  validateDate :: "js_date \<Rightarrow> string option"

text \<open>
  The tool's state: the lock map \<open>activeReservations\<close>, and the list of the requests
  sent with \<open>fetch\<close> so far (kept to count the calls to the store, as a test double
  would).
\<close>

record tool_state =
  activeReservations :: "string \<rightharpoonup> bool"
  api_calls :: "api_call list"

subsection \<open>createReservation\<close>

text \<open>"The same reservation is being processed."\<close>

definition in_flight :: string where
  "in_flight =
     [CHR 0xEB, CHR 0x8F, CHR 0x99, CHR 0xEC, CHR 0x9D, CHR 0xBC, CHR 0xED, CHR 0x95,
      CHR 0x9C, CHR 0x20, CHR 0xEC, CHR 0x98, CHR 0x88, CHR 0xEC, CHR 0x95, CHR 0xBD,
      CHR 0xEC, CHR 0x9D, CHR 0xB4, CHR 0x20, CHR 0xEC, CHR 0xB2, CHR 0x98, CHR 0xEB,
      CHR 0xA6, CHR 0xAC, CHR 0x20, CHR 0xEC, CHR 0xA4, CHR 0x91, CHR 0xEC, CHR 0x9E,
      CHR 0x85, CHR 0xEB, CHR 0x8B, CHR 0x88, CHR 0xEB, CHR 0x8B, CHR 0xA4, CHR 0x2E]"

text \<open>"Creating the reservation failed."\<close>

definition create_failed :: string where
  "create_failed =
     [CHR 0xEC, CHR 0x98, CHR 0x88, CHR 0xEC, CHR 0x95, CHR 0xBD, CHR 0x20, CHR 0xEC,
      CHR 0x83, CHR 0x9D, CHR 0xEC, CHR 0x84, CHR 0xB1, CHR 0xEC, CHR 0x97, CHR 0x90,
      CHR 0x20, CHR 0xEC, CHR 0x8B, CHR 0xA4, CHR 0xED, CHR 0x8C, CHR 0xA8, CHR 0xED,
      CHR 0x96, CHR 0x88, CHR 0xEC, CHR 0x8A, CHR 0xB5, CHR 0xEB, CHR 0x8B, CHR 0x88,
      CHR 0xEB, CHR 0x8B, CHR 0xA4, CHR 0x2E]"

text \<open>\<open>`${info.date}_${info.startTime}_${info.roomId}`\<close>\<close>

definition reservationKey :: "js_runtime \<Rightarrow> create_info \<Rightarrow> string" where
  "reservationKey rt info =
     (case info_date info of DateText t \<Rightarrow> t | DateObject d \<Rightarrow> dateToString rt d)
       @ ''_'' @ info_startTime info @ ''_'' @ number_to_string (info_roomId info)"

text \<open>\<open>this.activeReservations.get(key)\<close> as a condition: the key is there, with a true value.\<close>

definition is_locked :: "tool_state \<Rightarrow> string \<Rightarrow> bool" where
  "is_locked s k = (activeReservations s k = Some True)"

text \<open>The \<open>finally\<close> block: \<open>this.activeReservations.delete(reservationKey)\<close>.\<close>

definition release_lock :: "tool_state \<Rightarrow> string \<Rightarrow> tool_state" where
  "release_lock s k = s\<lparr>activeReservations := (activeReservations s)(k := None)\<rparr>"

text \<open>
  The \<open>try\<close> block up to the call of \<open>fetch\<close>: the lock is tested and taken, the date
  is converted and the request is sent. It gives the thrown value, or the request that
  was sent.
\<close>

definition createReservation_send ::
  "js_runtime \<Rightarrow> tool_state \<Rightarrow> create_info \<Rightarrow> (js_exn + create_request) \<times> tool_state" where
  "createReservation_send rt s info =
     (if is_locked s (reservationKey rt info) then (Inl (JsError in_flight), s)
      else
        let s1 = s\<lparr>activeReservations :=
                      (activeReservations s)(reservationKey rt info \<mapsto> True)\<rparr>;
            date = (case info_date info of DateText t \<Rightarrow> newDate rt t | DateObject d \<Rightarrow> d)
        in case date_toISOString rt date of
             Inl e \<Rightarrow> (Inl e, s1)
           | Inr isoString \<Rightarrow>
               (let requestBody =
                      \<lparr>rq_date = split_T_first isoString,
                       rq_startTime = info_startTime info,
                       rq_duration = info_duration info,
                       rq_roomId = info_roomId info,
                       rq_userName = info_userName info,
                       rq_content = info_content info\<rparr>
                in (Inr requestBody,
                    s1\<lparr>api_calls := api_calls s1 @ [CreateCall requestBody]\<rparr>)))"

text \<open>The rest of the \<open>try\<close> block, from the outcome of \<open>fetch\<close>.\<close>

definition createReservation_receive :: "js_exn + http_response \<Rightarrow> js_exn + bool" where
  "createReservation_receive outcome =
     (case outcome of
        Inl e \<Rightarrow> Inl e
      | Inr result \<Rightarrow>
          (if \<not> ok result then
             (case json_body result of
                Inl e \<Rightarrow> Inl e
              | Inr errorData \<Rightarrow>
                  Inl (JsError (case body_error errorData of
                                  None \<Rightarrow> create_failed
                                | Some m \<Rightarrow> if m = [] then create_failed else m)))
           else
             (case json_body result of
                Inl e \<Rightarrow> Inl e
              | Inr responseData \<Rightarrow> Inr (body_success responseData))))"

text \<open>
  A call that waits for its response: the key it computed on entry and the request it
  sent.
\<close>

record pending_create =
  pc_key :: string
  pc_request :: create_request

text \<open>
  A call runs in two steps, and other calls may run between them. The first step runs
  from the entry to the first \<open>await\<close>; when the \<open>try\<close> block throws there, the
  \<open>catch\<close> block throws the error again and the \<open>finally\<close> block runs, which ends the
  call. The second step runs from the outcome of \<open>fetch\<close> to the end, through
  \<open>finally\<close>.
\<close>

definition createReservation_start ::
  "js_runtime \<Rightarrow> tool_state \<Rightarrow> create_info \<Rightarrow> (js_exn + pending_create) \<times> tool_state" where
  "createReservation_start rt s info =
     (case createReservation_send rt s info of
        (Inl e, s') \<Rightarrow> (Inl e, release_lock s' (reservationKey rt info))
      | (Inr requestBody, s') \<Rightarrow>
          (Inr \<lparr>pc_key = reservationKey rt info, pc_request = requestBody\<rparr>, s'))"

definition createReservation_resume ::
  "tool_state \<Rightarrow> pending_create \<Rightarrow> js_exn + http_response \<Rightarrow> (js_exn + bool) \<times> tool_state" where
  "createReservation_resume s p outcome =
     (createReservation_receive outcome, release_lock s (pc_key p))"

text \<open>A call that runs alone, from entry to completion.\<close>

definition createReservation ::
  "js_runtime \<Rightarrow> collaborators \<Rightarrow> tool_state \<Rightarrow> create_info \<Rightarrow> (js_exn + bool) \<times> tool_state" where
  "createReservation rt co s info =
     (case createReservation_start rt s info of
        (Inl e, s') \<Rightarrow> (Inl e, s')
      | (Inr p, s') \<Rightarrow>
          createReservation_resume s' p (fetch co (CreateCall (pc_request p))))"

subsection \<open>findNextAvailable\<close>

record fna_options =
  timeRange :: string
  preferredRoom :: "int option"
  startFrom :: date_arg

record time_slot =
  slot_date :: string
  slot_roomId :: int
  slot_startTime :: string
  slot_endTime :: string

record fna_result =
  availableSlots :: "time_slot list"
  success :: "bool option"
  error :: "string option"

text \<open>"Checking the availability failed."\<close>

definition availability_failed :: string where
  "availability_failed =
     [CHR 0xEA, CHR 0xB0, CHR 0x80, CHR 0xEC, CHR 0x9A, CHR 0xA9, CHR 0xEC, CHR 0x84,
      CHR 0xB1, CHR 0x20, CHR 0xED, CHR 0x99, CHR 0x95, CHR 0xEC, CHR 0x9D, CHR 0xB8,
      CHR 0x20, CHR 0xEC, CHR 0x8B, CHR 0xA4, CHR 0xED, CHR 0x8C, CHR 0xA8]"

text \<open>"An unknown error occurred."\<close>

definition unknown_error :: string where
  "unknown_error =
     [CHR 0xEC, CHR 0x95, CHR 0x8C, CHR 0x20, CHR 0xEC, CHR 0x88, CHR 0x98, CHR 0x20,
      CHR 0xEC, CHR 0x97, CHR 0x86, CHR 0xEB, CHR 0x8A, CHR 0x94, CHR 0x20, CHR 0xEC,
      CHR 0x98, CHR 0xA4, CHR 0xEB, CHR 0xA5, CHR 0x98, CHR 0xEA, CHR 0xB0, CHR 0x80,
      CHR 0x20, CHR 0xEB, CHR 0xB0, CHR 0x9C, CHR 0xEC, CHR 0x83, CHR 0x9D, CHR 0xED,
      CHR 0x96, CHR 0x88, CHR 0xEC, CHR 0x8A, CHR 0xB5, CHR 0xEB, CHR 0x8B, CHR 0x88,
      CHR 0xEB, CHR 0x8B, CHR 0xA4, CHR 0x2E]"

text \<open>
  The object literal \<open>timeRanges\<close>: its own properties, each with \<open>start\<close> and
  \<open>end\<close>.
\<close>

definition timeRanges :: "(string \<times> nat \<times> nat) list" where
  "timeRanges = [(''morning'', (9, 12)), (''afternoon'', (13, 18)), (''all'', (9, 18))]"

text \<open>
  The properties an object literal inherits from \<open>Object.prototype\<close>. Each holds a
  function or an object: a value that counts as true and has neither \<open>start\<close> nor
  \<open>end\<close>.
\<close>

definition object_prototype_properties :: "string list" where
  "object_prototype_properties =
     [''constructor'', ''__defineGetter__'', ''__defineSetter__'', ''hasOwnProperty'',
      ''__lookupGetter__'', ''__lookupSetter__'', ''isPrototypeOf'',
      ''propertyIsEnumerable'', ''toString'', ''valueOf'', ''__proto__'',
      ''toLocaleString'']"

text \<open>
  The value of \<open>range\<close>: an object with \<open>start\<close> and \<open>end\<close>, or an inherited
  property.
\<close>

datatype range_value = HourRange nat nat | InheritedProperty

text \<open>\<open>timeRanges[name]\<close>: an own property first, then an inherited one, else undefined.\<close>

definition timeRanges_get :: "string \<Rightarrow> range_value option" where
  "timeRanges_get name =
     (case map_of timeRanges name of
        Some (a, b) \<Rightarrow> Some (HourRange a b)
      | None \<Rightarrow>
          if name \<in> set object_prototype_properties then Some InheritedProperty
          else None)"

text \<open>\<open>timeRanges[options.timeRange] || timeRanges.all\<close>\<close>

definition resolve_range :: "string \<Rightarrow> range_value" where
  "resolve_range name =
     (case timeRanges_get name of
        Some v \<Rightarrow> v
      | None \<Rightarrow> HourRange 9 18)"

text \<open>
  The values \<open>hour\<close> takes in \<open>for (let hour = range.start; hour < range.end; hour++)\<close>.
  With an inherited property both bounds are undefined, the comparison is false at once
  and the body never runs.
\<close>

definition range_hours :: "range_value \<Rightarrow> nat list" where
  "range_hours r =
     (case r of HourRange a b \<Rightarrow> [a ..< b] | InheritedProperty \<Rightarrow> [])"

text \<open>\<open>options.preferredRoom && options.preferredRoom !== roomId\<close>: the room is skipped.\<close>

definition skips_room :: "int option \<Rightarrow> int \<Rightarrow> bool" where
  "skips_room preferred roomId =
     (case preferred of None \<Rightarrow> False | Some p \<Rightarrow> p \<noteq> 0 \<and> p \<noteq> roomId)"

definition hour_label :: "nat \<Rightarrow> string" where
  "hour_label hour = padStart2 (nat_to_string hour) @ '':00''"

text \<open>The two nested loops that fill \<open>defaultSlots\<close>.\<close>

definition defaultSlots :: "string \<Rightarrow> range_value \<Rightarrow> int option \<Rightarrow> time_slot list" where
  "defaultSlots isoString r preferred =
     concat (map (\<lambda>roomId.
                    if skips_room preferred roomId then []
                    else map (\<lambda>hour.
                                \<lparr>slot_date = split_T_first isoString,
                                 slot_roomId = roomId,
                                 slot_startTime = hour_label hour,
                                 slot_endTime = hour_label (hour + 1)\<rparr>)
                             (range_hours r))
                 [1, 4, 5, 6])"

text \<open>The filter over \<open>defaultSlots\<close>: a slot stays unless some reserved entry has its room and its start time.\<close>

definition filter_reserved :: "reserved_slot list \<Rightarrow> time_slot list \<Rightarrow> time_slot list" where
  "filter_reserved reservedSlots slots =
     filter (\<lambda>slot. \<not> list_ex (\<lambda>reserved.
                                  rs_roomId reserved = slot_roomId slot \<and>
                                  rs_startTime reserved = slot_startTime slot)
                               reservedSlots)
            slots"

text \<open>A condition on a string or nothing: it holds for a string that is not empty.\<close>

definition truthy_text :: "string option \<Rightarrow> bool" where
  "truthy_text v = (case v of None \<Rightarrow> False | Some m \<Rightarrow> m \<noteq> [])"

text \<open>
  The first part of the \<open>try\<close> block, up to \<open>const result = await response.json()\<close>:
  the date is parsed and validated and the reserved times are fetched. It throws
  (\<open>Inl\<close>), returns the object for a date the validator refuses (\<open>Inr (Inl _)\<close>), or
  goes on with the text of \<open>targetDate.toISOString()\<close> and the body of the response.
\<close>

definition findNextAvailable_lookup ::
  "js_runtime \<Rightarrow> collaborators \<Rightarrow> tool_state \<Rightarrow> fna_options \<Rightarrow>
     (js_exn + fna_result + string \<times> response_body) \<times> tool_state" where
  "findNextAvailable_lookup rt co s options =
     (case (case startFrom options of
              DateText t \<Rightarrow> parseDateString co t
            | DateObject d \<Rightarrow> Inr d) of
        Inl e \<Rightarrow> (Inl e, s)
      | Inr targetDate \<Rightarrow>
          (if truthy_text (validateDate co targetDate) then
             (Inr (Inl \<lparr>availableSlots = [], success = Some False,
                        error = validateDate co targetDate\<rparr>), s)
           else
             (case date_toISOString rt targetDate of
                Inl e \<Rightarrow> (Inl e, s)
              | Inr isoString \<Rightarrow>
                  (let call = FindNextCall
                                \<lparr>fn_date = isoString,
                                 fn_timeRange = timeRange options,
                                 fn_preferredRoom = preferredRoom options\<rparr>;
                       s1 = s\<lparr>api_calls := api_calls s @ [call]\<rparr>
                   in case fetch co call of
                        Inl e \<Rightarrow> (Inl e, s1)
                      | Inr response \<Rightarrow>
                          (if \<not> ok response then (Inl (JsError availability_failed), s1)
                           else
                             (case json_body response of
                                Inl e \<Rightarrow> (Inl e, s1)
                              | Inr result \<Rightarrow> (Inr (Inr (isoString, result)), s1)))))))"

text \<open>
  The second part of the \<open>try\<close> block: the default slots of the range, and the object
  returned, with all of them when nothing is reserved and with the filtered ones
  otherwise.
\<close>

definition findNextAvailable_slots :: "string \<Rightarrow> fna_options \<Rightarrow> response_body \<Rightarrow> fna_result" where
  "findNextAvailable_slots isoString options result =
     (let r = resolve_range (timeRange options);
          slots = defaultSlots isoString r (preferredRoom options);
          reservedSlots = (case body_data result of Some d \<Rightarrow> d | None \<Rightarrow> [])
      in if length reservedSlots = 0 then
           \<lparr>availableSlots = slots, success = Some True, error = None\<rparr>
         else
           \<lparr>availableSlots = filter_reserved reservedSlots slots,
            success = Some True, error = None\<rparr>)"

text \<open>The \<open>try\<close> block: the thrown value or the returned object, and the state.\<close>

definition findNextAvailable_try ::
  "js_runtime \<Rightarrow> collaborators \<Rightarrow> tool_state \<Rightarrow> fna_options \<Rightarrow> (js_exn + fna_result) \<times> tool_state" where
  "findNextAvailable_try rt co s options =
     (case findNextAvailable_lookup rt co s options of
        (Inl e, s') \<Rightarrow> (Inl e, s')
      | (Inr (Inl refused), s') \<Rightarrow> (Inr refused, s')
      | (Inr (Inr (isoString, result)), s') \<Rightarrow>
          (Inr (findNextAvailable_slots isoString options result), s'))"

text \<open>
  The whole method: what the \<open>try\<close> block returns, or the object the \<open>catch\<close> block
  builds from the thrown value. \<open>Inl\<close> would be an exception that reaches the caller.
\<close>

definition findNextAvailable ::
  "js_runtime \<Rightarrow> collaborators \<Rightarrow> tool_state \<Rightarrow> fna_options \<Rightarrow> (js_exn + fna_result) \<times> tool_state" where
  "findNextAvailable rt co s options =
     (case findNextAvailable_try rt co s options of
        (Inr r, s') \<Rightarrow> (Inr r, s')
      | (Inl e, s') \<Rightarrow>
          (Inr \<lparr>availableSlots = [], success = Some False,
                error = Some (case e of JsError m \<Rightarrow> m | NonError \<Rightarrow> unknown_error)\<rparr>,
           s'))"

section \<open>The spec's words\<close>

text \<open>Two half-open intervals overlap: \<open>a.start < b.end AND b.start < a.end\<close>.\<close>

definition spec_overlaps :: "timestamp \<times> timestamp \<Rightarrow> timestamp \<times> timestamp \<Rightarrow> bool" where
  "spec_overlaps a b = (fst a < snd b \<and> fst b < snd a)"

text \<open>A reservation counts as occupying unless it is cancelled.\<close>

definition spec_occupying :: "reservation \<Rightarrow> bool" where
  "spec_occupying r = (r_status r \<noteq> Cancelled)"

text \<open>The minutes since midnight a text \<open>HH:MM\<close> stands for.\<close>

definition digit_value :: "char \<Rightarrow> nat" where
  "digit_value c = of_char c - 48"

definition spec_minutes :: "string \<Rightarrow> nat" where
  "spec_minutes t =
     (10 * digit_value (t ! 0) + digit_value (t ! 1)) * 60
       + 10 * digit_value (t ! 3) + digit_value (t ! 4)"

text \<open>The window of a slot intersects the window of a reserved entry of the same room.\<close>

definition spec_slot_intersects :: "time_slot \<Rightarrow> reserved_slot \<Rightarrow> bool" where
  "spec_slot_intersects slot reserved =
     (slot_roomId slot = rs_roomId reserved \<and>
      spec_minutes (slot_startTime slot) < spec_minutes (rs_endTime reserved) \<and>
      spec_minutes (rs_startTime reserved) < spec_minutes (slot_endTime slot))"

text \<open>
  The rooms a search covers: all of them, or the preferred room alone when one is
  given (a number other than 0, which the code takes as none).
\<close>

definition spec_rooms :: "int option \<Rightarrow> int list" where
  "spec_rooms preferred =
     (case preferred of
        None \<Rightarrow> [1, 4, 5, 6]
      | Some p \<Rightarrow> if p = 0 then [1, 4, 5, 6] else filter (\<lambda>room. room = p) [1, 4, 5, 6])"

text \<open>The object returned on a failure: no slots, \<open>success\<close> false, and the error text \<open>m\<close>.\<close>

definition failure_object :: "fna_result \<Rightarrow> string \<Rightarrow> bool" where
  "failure_object r m = (availableSlots r = [] \<and> success r = Some False \<and> error r = Some m)"

text \<open>The number a text of decimal digits stands for, and the hour of a label \<open>HH:00\<close>.\<close>

definition digits_value :: "string \<Rightarrow> nat" where
  "digits_value t = foldl (\<lambda>acc c. 10 * acc + digit_value c) 0 t"

definition hour_of_label :: "string \<Rightarrow> nat" where
  "hour_of_label t = digits_value (take (length t - 3) t)"

section \<open>Test doubles\<close>

text \<open>
  A runtime in the UTC time zone that knows 1 June 2024: the date-time texts and the
  time values the examples below use.
\<close>

definition june1 :: timestamp where
  "june1 = 1717200000000"

definition hours :: "int \<Rightarrow> timestamp" where
  "hours n = n * 3600000"

definition utc_runtime :: js_runtime where
  "utc_runtime =
     \<lparr>newDate = (\<lambda>t.
        case map_of [(''2024-06-01'', june1),
                     (''2024-06-01T09:00'', june1 + hours 9),
                     (''2024-06-01 09:00'', june1 + hours 9),
                     (''2024-06-01 12:00'', june1 + hours 12)] t of
          Some v \<Rightarrow> ValidDate v
        | None \<Rightarrow> InvalidDate),
      toISOString = (\<lambda>v. if v = june1 then ''2024-06-01T00:00:00.000Z'' else []),
      dateToString = (\<lambda>d.
        case d of
          InvalidDate \<Rightarrow> ''Invalid Date''
        | ValidDate v \<Rightarrow>
            if v = june1 then ''Sat Jun 01 2024 00:00:00 GMT+0000 (Coordinated Universal Time)''
            else []),
      formatLocalDate = (\<lambda>d.
        case d of
          InvalidDate \<Rightarrow> ''Invalid Date''
        | ValidDate v \<Rightarrow> if v = june1 then ''2024-06-01'' else []),
      addHour = (\<lambda>v. v + hours 1)\<rparr>"

text \<open>A reservation of room \<open>room\<close> on 1 June 2024, from hour \<open>a\<close> to hour \<open>b\<close>.\<close>

definition booking :: "int \<Rightarrow> int \<Rightarrow> int \<Rightarrow> status \<Rightarrow> reservation" where
  "booking room a b st =
     \<lparr>r_id = 1, r_userId = ''u1'', r_roomId = room,
      r_startTime = june1 + hours a, r_endTime = june1 + hours b,
      r_status = st, r_regdate = june1\<rparr>"

text \<open>
  A server that answers every request with \<open>ok\<close> and the given body, a parser that
  knows 1 June 2024, and a validator that refuses an invalid date.
\<close>

definition answering :: "response_body \<Rightarrow> collaborators" where
  "answering b =
     \<lparr>fetch = (\<lambda>call. Inr \<lparr>ok = True, json_body = Inr b\<rparr>),
      parseDateString = (\<lambda>t. if t = ''2024-06-01'' then Inr (ValidDate june1)
                              else Inl (JsError ''Invalid date format'')),
      validateDate = (\<lambda>d. case d of InvalidDate \<Rightarrow> Some ''Invalid date''
                                   | ValidDate v \<Rightarrow> None)\<rparr>"

text \<open>A server that cannot be reached: every \<open>fetch\<close> is rejected.\<close>

definition unreachable :: collaborators where
  "unreachable =
     \<lparr>fetch = (\<lambda>call. Inl (JsError ''Failed to fetch'')),
      parseDateString = (\<lambda>t. if t = ''2024-06-01'' then Inr (ValidDate june1)
                              else Inl (JsError ''Invalid date format'')),
      validateDate = (\<lambda>d. case d of InvalidDate \<Rightarrow> Some ''Invalid date''
                                   | ValidDate v \<Rightarrow> None)\<rparr>"

definition body_with :: "reserved_slot list \<Rightarrow> response_body" where
  "body_with d = \<lparr>body_error = None, body_success = True, body_data = Some d\<rparr>"

definition idle :: tool_state where
  "idle = \<lparr>activeReservations = Map.empty, api_calls = []\<rparr>"

definition request_for_room :: "int \<Rightarrow> create_info" where
  "request_for_room room =
     \<lparr>info_date = DateText ''2024-06-01'', info_startTime = ''10:00'',
      info_duration = 1, info_roomId = room,
      info_userName = ''kim'', info_content = ''weekly''\<rparr>"

definition search :: "string \<Rightarrow> int option \<Rightarrow> fna_options" where
  "search name preferred =
     \<lparr>timeRange = name, preferredRoom = preferred,
      startFrom = DateObject (ValidDate june1)\<rparr>"

text \<open>A tool in which the lock of key \<open>k\<close> is held and nothing was sent yet.\<close>

definition holding :: "string \<Rightarrow> tool_state" where
  "holding k = \<lparr>activeReservations = [k \<mapsto> True], api_calls = []\<rparr>"

text \<open>What \<open>toISOString\<close> gives for 1 June 2024, a slot of that day, and a reserved entry.\<close>

definition iso_june1 :: string where
  "iso_june1 = ''2024-06-01T00:00:00.000Z''"

definition slot_at :: "int \<Rightarrow> string \<Rightarrow> string \<Rightarrow> time_slot" where
  "slot_at room a b =
     \<lparr>slot_date = ''2024-06-01'', slot_roomId = room, slot_startTime = a, slot_endTime = b\<rparr>"

definition reserved_at :: "int \<Rightarrow> string \<Rightarrow> string \<Rightarrow> reserved_slot" where
  "reserved_at room a b = \<lparr>rs_roomId = room, rs_startTime = a, rs_endTime = b\<rparr>"

text \<open>A server that answers every request with the given response.\<close>

definition responding :: "http_response \<Rightarrow> collaborators" where
  "responding resp =
     \<lparr>fetch = (\<lambda>call. Inr resp),
      parseDateString = (\<lambda>t. if t = ''2024-06-01'' then Inr (ValidDate june1)
                              else Inl (JsError ''Invalid date format'')),
      validateDate = (\<lambda>d. case d of InvalidDate \<Rightarrow> Some ''Invalid date''
                                   | ValidDate v \<Rightarrow> None)\<rparr>"

text \<open>A date parser that throws an \<open>Error\<close> made without a message.\<close>

definition silent_parser :: collaborators where
  "silent_parser =
     \<lparr>fetch = (\<lambda>call. Inl (JsError ''Failed to fetch'')),
      parseDateString = (\<lambda>t. Inl (JsError [])),
      validateDate = (\<lambda>d. None)\<rparr>"


section \<open>The availability check\<close>

lemma findAvailableRooms_valid:
  assumes "newDate rt (split_T_first (toISOString rt t) @ ''T'' @ startTime) = ValidDate w"
  shows "findAvailableRooms rt (Inr rows) (ValidDate t) startTime =
     Inr (map (\<lambda>roomId.
            \<lparr>ar_roomId = roomId,
             isAvailable =
               (filter (\<lambda>r. r_roomId r = roomId)
                  (filter (\<lambda>r. r_startTime r \<le> addHour rt w \<and> w < r_endTime r) rows) = []),
             conflictingReservations =
               filter (\<lambda>r. r_roomId r = roomId)
                 (filter (\<lambda>r. r_startTime r \<le> addHour rt w \<and> w < r_endTime r) rows)\<rparr>)
          AVAILABLE_ROOMS)"
  using assms
  by (simp add: findAvailableRooms_def findAvailableRooms_try_def date_toISOString_def
      findMany_def Let_def)

text \<open>
  What the query of findAvailableRooms reports for a window from \<open>w\<close> to
  \<open>addHour rt w\<close>: a reservation that starts no later than the window ends and ends
  after the window starts. The bound at the window's end is not strict.
\<close>

lemma findAvailableRooms_reported_iff:
  assumes "newDate rt (split_T_first (toISOString rt t) @ ''T'' @ startTime) = ValidDate w"
      and "findAvailableRooms rt (Inr rows) (ValidDate t) startTime = Inr rooms"
      and "a \<in> set rooms"
  shows "r \<in> set (conflictingReservations a) \<longleftrightarrow>
           r \<in> set rows \<and> r_roomId r = ar_roomId a \<and>
           r_startTime r \<le> addHour rt w \<and> w < r_endTime r"
  using assms(2,3) unfolding findAvailableRooms_valid [OF assms(1)] by auto

text \<open>
  C1 (the code departs from the claim). The claim: a reservation is reported as
  conflicting with the requested window iff the two half-open intervals overlap, so a
  reservation that starts exactly when the one-hour window ends is no conflict. The
  code at that input: for the window from 09:00 to 10:00 and a reservation of room 1
  from 10:00 to 11:00, which does not overlap the window, room 1 is reported as not
  available with that reservation as its conflict.
\<close>

theorem findAvailableRooms_reports_touching:
  "findAvailableRooms utc_runtime (Inr [booking 1 10 11 Confirmed]) (ValidDate june1) ''09:00''
     = Inr [\<lparr>ar_roomId = 1, isAvailable = False,
              conflictingReservations = [booking 1 10 11 Confirmed]\<rparr>,
            \<lparr>ar_roomId = 4, isAvailable = True, conflictingReservations = []\<rparr>,
            \<lparr>ar_roomId = 5, isAvailable = True, conflictingReservations = []\<rparr>,
            \<lparr>ar_roomId = 6, isAvailable = True, conflictingReservations = []\<rparr>]
   \<and> \<not> spec_overlaps
         (r_startTime (booking 1 10 11 Confirmed), r_endTime (booking 1 10 11 Confirmed))
         (june1 + hours 9, june1 + hours 10)"
  by (simp add: findAvailableRooms_def findAvailableRooms_try_def date_toISOString_def
      utc_runtime_def split_T_first_def findMany_def booking_def june1_def hours_def
      AVAILABLE_ROOMS_def spec_overlaps_def)

section \<open>The store query by window\<close>

lemma findReservationsByDateTime_valid:
  assumes "newDate rt (formatLocalDate rt d @ '' '' @ startHour) = ValidDate a"
      and "newDate rt (formatLocalDate rt d @ '' '' @ endHour) = ValidDate b"
  shows "findReservationsByDateTime rt (Inr rows) d startHour endHour
           = Inr (filter (\<lambda>r. a \<le> r_startTime r \<and> r_endTime r \<le> b) rows)"
  using assms
  by (simp add: findReservationsByDateTime_def findReservationsByDateTime_try_def findMany_def)

lemma count_list_filter:
  "count_list (filter P xs) x = (if P x then count_list xs x else 0)"
  by (induction xs) auto

text \<open>
  C2 (amended). The claim: findReservationsByDateTime returns every reservation whose
  interval intersects the window, also those that start before it or end after it.
  The code returns the reservations that lie within the window: for a date and hours
  that give the instants \<open>a\<close> and \<open>b\<close>, a row is returned iff \<open>a \<le> startTime\<close> and
  \<open>endTime \<le> b\<close>, and then as often as the table holds it; a row that starts before
  \<open>a\<close> or ends after \<open>b\<close> is not returned. Nothing is said of the order.
\<close>

theorem findReservationsByDateTime_within_window:
  assumes "newDate rt (formatLocalDate rt d @ '' '' @ startHour) = ValidDate a"
      and "newDate rt (formatLocalDate rt d @ '' '' @ endHour) = ValidDate b"
  shows "\<exists>found. findReservationsByDateTime rt (Inr rows) d startHour endHour = Inr found
           \<and> (\<forall>r. r \<in> set found \<longleftrightarrow>
                  r \<in> set rows \<and> a \<le> r_startTime r \<and> r_endTime r \<le> b)
           \<and> (\<forall>r. count_list found r =
                  (if a \<le> r_startTime r \<and> r_endTime r \<le> b then count_list rows r else 0))
           \<and> (\<forall>r \<in> set rows. r_startTime r < a \<or> b < r_endTime r \<longrightarrow> r \<notin> set found)"
  unfolding findReservationsByDateTime_valid [OF assms]
  by (auto simp add: count_list_filter)

text \<open>
  The window from 09:00 to 12:00 over three reservations: the one from 09:00 to 12:00 is
  returned, the ones from 08:00 to 10:00 and from 11:00 to 13:00 are not.
\<close>

theorem findReservationsByDateTime_within_window_witness:
  "newDate utc_runtime (formatLocalDate utc_runtime (ValidDate june1) @ '' '' @ ''09:00'')
     = ValidDate (june1 + hours 9)
   \<and> newDate utc_runtime (formatLocalDate utc_runtime (ValidDate june1) @ '' '' @ ''12:00'')
     = ValidDate (june1 + hours 12)
   \<and> (\<exists>found. findReservationsByDateTime utc_runtime
          (Inr [booking 1 8 10 Confirmed, booking 5 9 12 Confirmed, booking 4 11 13 Confirmed])
          (ValidDate june1) ''09:00'' ''12:00'' = Inr found
        \<and> booking 5 9 12 Confirmed \<in> set found
        \<and> booking 1 8 10 Confirmed \<notin> set found
        \<and> booking 4 11 13 Confirmed \<notin> set found
        \<and> count_list found (booking 5 9 12 Confirmed) = 1)"
proof -
  let ?rows = "[booking 1 8 10 Confirmed, booking 5 9 12 Confirmed, booking 4 11 13 Confirmed]"
  have a: "newDate utc_runtime (formatLocalDate utc_runtime (ValidDate june1) @ '' '' @ ''09:00'')
             = ValidDate (june1 + hours 9)"
    by (simp add: utc_runtime_def)
  have b: "newDate utc_runtime (formatLocalDate utc_runtime (ValidDate june1) @ '' '' @ ''12:00'')
             = ValidDate (june1 + hours 12)"
    by (simp add: utc_runtime_def)
  from findReservationsByDateTime_within_window [OF a b, of ?rows]
  obtain found where
    f: "findReservationsByDateTime utc_runtime (Inr ?rows) (ValidDate june1) ''09:00'' ''12:00''
          = Inr found"
    and mem: "\<forall>r. r \<in> set found \<longleftrightarrow>
                r \<in> set ?rows \<and> june1 + hours 9 \<le> r_startTime r
                \<and> r_endTime r \<le> june1 + hours 12"
    and cnt: "\<forall>r. count_list found r =
                (if june1 + hours 9 \<le> r_startTime r \<and> r_endTime r \<le> june1 + hours 12
                 then count_list ?rows r else 0)"
    by (elim exE conjE) (rule that)
  from mem have m: "booking 5 9 12 Confirmed \<in> set found"
    "booking 1 8 10 Confirmed \<notin> set found" "booking 4 11 13 Confirmed \<notin> set found"
    by (simp_all add: booking_def hours_def)
  from cnt have c: "count_list found (booking 5 9 12 Confirmed) = 1"
    by (simp add: booking_def hours_def)
  from a b f m c show ?thesis
    by (intro conjI exI [of _ found])
qed

text \<open>
  The claim of C2 fails: a reservation from 08:00 to 10:00 and one from 11:00 to 13:00
  both overlap the window from 09:00 to 12:00, and the query returns neither.
\<close>

theorem findReservationsByDateTime_misses_overlap:
  "findReservationsByDateTime utc_runtime
      (Inr [booking 1 8 10 Confirmed, booking 4 11 13 Confirmed])
      (ValidDate june1) ''09:00'' ''12:00'' = Inr []
   \<and> spec_overlaps
       (r_startTime (booking 1 8 10 Confirmed), r_endTime (booking 1 8 10 Confirmed))
       (june1 + hours 9, june1 + hours 12)
   \<and> spec_overlaps
       (r_startTime (booking 4 11 13 Confirmed), r_endTime (booking 4 11 13 Confirmed))
       (june1 + hours 9, june1 + hours 12)"
  by (simp add: findReservationsByDateTime_def findReservationsByDateTime_try_def findMany_def
      utc_runtime_def booking_def june1_def hours_def spec_overlaps_def)

section \<open>Availability per room\<close>

text \<open>
  C3 (amended). The claim: the result has an entry for every configured room, a room is
  available iff its partition of the fetched reservations is empty after the statuses
  that do not occupy (such as Cancelled) are filtered out, an available room has an
  empty conflict list, and with no reservations every room is available with an empty
  list. The code filters no status: the result has one entry for each of the rooms 1,
  4, 5 and 6, in this order; the conflict list of a room is the fetched reservations of
  that room, whatever their status; the room is available iff that list is empty; and
  with no reservations every room is available with an empty list.
\<close>

theorem findAvailableRooms_per_room:
  assumes "newDate rt (split_T_first (toISOString rt t) @ ''T'' @ startTime) = ValidDate w"
  shows "\<exists>rooms. findAvailableRooms rt (Inr rows) (ValidDate t) startTime = Inr rooms
     \<and> map ar_roomId rooms = AVAILABLE_ROOMS
     \<and> AVAILABLE_ROOMS = [1, 4, 5, 6]
     \<and> (\<forall>a \<in> set rooms.
           conflictingReservations a =
             filter (\<lambda>r. r_roomId r = ar_roomId a)
               (filter (\<lambda>r. r_startTime r \<le> addHour rt w \<and> w < r_endTime r) rows)
           \<and> (isAvailable a \<longleftrightarrow> conflictingReservations a = []))
     \<and> (rows = [] \<longrightarrow> (\<forall>a \<in> set rooms. isAvailable a \<and> conflictingReservations a = []))"
  unfolding findAvailableRooms_valid [OF assms]
  by (simp add: AVAILABLE_ROOMS_def)

text \<open>
  With one reservation of room 4 in the window, room 4 alone is not available; with no
  reservation at all, every room is available with no conflict.
\<close>

theorem findAvailableRooms_per_room_witness:
  "newDate utc_runtime (split_T_first (toISOString utc_runtime june1) @ ''T'' @ ''09:00'')
     = ValidDate (june1 + hours 9)
   \<and> (\<exists>rooms. findAvailableRooms utc_runtime (Inr [booking 4 9 10 Confirmed])
                 (ValidDate june1) ''09:00'' = Inr rooms
         \<and> map ar_roomId rooms = [1, 4, 5, 6]
         \<and> map isAvailable rooms = [True, False, True, True])
   \<and> (\<exists>rooms. findAvailableRooms utc_runtime (Inr []) (ValidDate june1) ''09:00'' = Inr rooms
         \<and> map ar_roomId rooms = [1, 4, 5, 6]
         \<and> map isAvailable rooms = [True, True, True, True]
         \<and> map conflictingReservations rooms = [[], [], [], []])"
proof -
  have v: "newDate utc_runtime (split_T_first (toISOString utc_runtime june1) @ ''T'' @ ''09:00'')
             = ValidDate (june1 + hours 9)"
    by (simp add: utc_runtime_def split_T_first_def)
  from findAvailableRooms_per_room [OF v, of "[booking 4 9 10 Confirmed]"]
  obtain rooms where
    r: "findAvailableRooms utc_runtime (Inr [booking 4 9 10 Confirmed])
          (ValidDate june1) ''09:00'' = Inr rooms"
    and ids: "map ar_roomId rooms = AVAILABLE_ROOMS"
    and each: "\<forall>a \<in> set rooms.
           conflictingReservations a =
             filter (\<lambda>r. r_roomId r = ar_roomId a)
               (filter (\<lambda>r. r_startTime r \<le> addHour utc_runtime (june1 + hours 9)
                            \<and> june1 + hours 9 < r_endTime r)
                  [booking 4 9 10 Confirmed])
           \<and> (isAvailable a \<longleftrightarrow> conflictingReservations a = [])"
    by (elim exE conjE) (rule that)
  from each have "map isAvailable rooms = map (\<lambda>a. a \<noteq> 4) (map ar_roomId rooms)"
    by (simp add: booking_def hours_def utc_runtime_def june1_def)
  with ids have one: "map isAvailable rooms = [True, False, True, True]"
    by (simp add: AVAILABLE_ROOMS_def)
  from findAvailableRooms_per_room [OF v, of "[]"]
  obtain free where
    f: "findAvailableRooms utc_runtime (Inr []) (ValidDate june1) ''09:00'' = Inr free"
    and fids: "map ar_roomId free = AVAILABLE_ROOMS"
    and all: "[] = ([] :: reservation list) \<longrightarrow>
                (\<forall>a \<in> set free. isAvailable a \<and> conflictingReservations a = [])"
    by (elim exE conjE) (rule that)
  from fids have len: "length free = 4"
    by (simp add: AVAILABLE_ROOMS_def flip: length_map [of ar_roomId free])
  from all have "map isAvailable free = map (\<lambda>a. True) free"
    and "map conflictingReservations free = map (\<lambda>a. []) free"
    by simp_all
  with len have none: "map isAvailable free = [True, True, True, True]"
    "map conflictingReservations free = [[], [], [], []]"
    by (simp_all add: map_replicate_const eval_nat_numeral)
  from v r ids one f fids none show ?thesis
    by (simp add: AVAILABLE_ROOMS_def)
qed

text \<open>
  The claim of C3 fails: a cancelled reservation of room 1 in the window makes room 1
  not available, though no occupying reservation is left in its partition.
\<close>

theorem findAvailableRooms_counts_cancelled:
  "findAvailableRooms utc_runtime (Inr [booking 1 9 10 Cancelled]) (ValidDate june1) ''09:00''
     = Inr [\<lparr>ar_roomId = 1, isAvailable = False,
              conflictingReservations = [booking 1 9 10 Cancelled]\<rparr>,
            \<lparr>ar_roomId = 4, isAvailable = True, conflictingReservations = []\<rparr>,
            \<lparr>ar_roomId = 5, isAvailable = True, conflictingReservations = []\<rparr>,
            \<lparr>ar_roomId = 6, isAvailable = True, conflictingReservations = []\<rparr>]
   \<and> filter spec_occupying [booking 1 9 10 Cancelled] = []"
  by (simp add: findAvailableRooms_def findAvailableRooms_try_def date_toISOString_def
      utc_runtime_def split_T_first_def findMany_def booking_def june1_def hours_def
      AVAILABLE_ROOMS_def spec_occupying_def)

section \<open>Creating a reservation\<close>

lemma createReservation_send_locked:
  "is_locked s (reservationKey rt info) \<Longrightarrow>
     createReservation_send rt s info = (Inl (JsError in_flight), s)"
  by (simp add: createReservation_send_def)


lemma createReservation_send_calls:
  "api_calls (snd (createReservation_send rt s info)) = api_calls s \<or>
   (\<exists>rq. fst (createReservation_send rt s info) = Inr rq \<and>
      api_calls (snd (createReservation_send rt s info)) = api_calls s @ [CreateCall rq])"
  by (auto simp add: createReservation_send_def Let_def split: sum.splits)

lemma release_lock_lookup [simp]:
  "activeReservations (release_lock s k) k = None"
  "api_calls (release_lock s k) = api_calls s"
  by (simp_all add: release_lock_def)

lemma not_locked_release [simp]: "\<not> is_locked (release_lock s k) k"
  by (simp add: is_locked_def)





text \<open>
  C5. A request that arrives while the lock of its key is held fails at once, in its
  first step and with the in-flight error, and sends nothing to the store. And when
  a first request has taken the lock and waits for its response, a second request
  with the same key is refused in this way, while the first one goes on: its outcome
  is what its own response gives.
\<close>

theorem createReservation_in_flight_rejected:
  "(is_locked s (reservationKey rt info) \<longrightarrow>
      createReservation_start rt s info = (Inl (JsError in_flight), release_lock s (reservationKey rt info))
      \<and> fst (createReservation rt co s info) = Inl (JsError in_flight)
      \<and> api_calls (snd (createReservation rt co s info)) = api_calls s)
   \<and> (createReservation_start rt s first = (Inr p, s1) \<and>
        reservationKey rt info = reservationKey rt first \<longrightarrow>
        \<not> is_locked s (reservationKey rt first)
        \<and> is_locked s1 (reservationKey rt first)
        \<and> api_calls s1 = api_calls s @ [CreateCall (pc_request p)]
        \<and> fst (createReservation_start rt s1 info) = Inl (JsError in_flight)
        \<and> api_calls (snd (createReservation_start rt s1 info)) = api_calls s1
        \<and> fst (createReservation_resume (snd (createReservation_start rt s1 info)) p outcome)
            = createReservation_receive outcome)"
  by (auto simp add: createReservation_def createReservation_start_def createReservation_resume_def
      createReservation_send_def is_locked_def Let_def split: sum.splits if_splits prod.splits)

text \<open>
  A request for room 1 while its key is locked, and two requests for room 1 on an idle
  tool, the second one entering while the first one waits.
\<close>

theorem createReservation_in_flight_rejected_witness:
  "is_locked (holding (reservationKey utc_runtime (request_for_room 1)))
      (reservationKey utc_runtime (request_for_room 1))
   \<and> fst (createReservation utc_runtime (answering (body_with []))
             (holding (reservationKey utc_runtime (request_for_room 1))) (request_for_room 1))
       = Inl (JsError in_flight)
   \<and> api_calls (snd (createReservation utc_runtime (answering (body_with []))
             (holding (reservationKey utc_runtime (request_for_room 1))) (request_for_room 1)))
       = []
   \<and> (\<exists>p s1. createReservation_start utc_runtime idle (request_for_room 1) = (Inr p, s1)
         \<and> is_locked s1 (reservationKey utc_runtime (request_for_room 1))
         \<and> fst (createReservation_start utc_runtime s1 (request_for_room 1))
             = Inl (JsError in_flight)
         \<and> api_calls (snd (createReservation_start utc_runtime s1 (request_for_room 1)))
             = [CreateCall (pc_request p)]
         \<and> fst (createReservation_resume
                  (snd (createReservation_start utc_runtime s1 (request_for_room 1))) p
                  (Inr \<lparr>ok = True, json_body = Inr (body_with [])\<rparr>))
             = Inr True)"
proof -
  let ?k = "reservationKey utc_runtime (request_for_room 1)"
  let ?answer = "Inr \<lparr>ok = True, json_body = Inr (body_with [])\<rparr> :: js_exn + http_response"
  have held: "is_locked (holding ?k) ?k"
    by (simp add: holding_def is_locked_def)
  have "\<exists>p s1. createReservation_start utc_runtime idle (request_for_room 1) = (Inr p, s1)"
    by (simp add: createReservation_start_def createReservation_send_def is_locked_def
        idle_def date_toISOString_def request_for_room_def utc_runtime_def Let_def)
  then obtain p s1 where
    started: "createReservation_start utc_runtime idle (request_for_room 1) = (Inr p, s1)"
    by (elim exE)
  have first: "fst (createReservation utc_runtime (answering (body_with [])) (holding ?k)
                 (request_for_room 1)) = Inl (JsError in_flight)
      \<and> api_calls (snd (createReservation utc_runtime (answering (body_with [])) (holding ?k)
                 (request_for_room 1))) = api_calls (holding ?k)"
    using createReservation_in_flight_rejected
      [where s = "holding ?k" and rt = utc_runtime and info = "request_for_room 1"
         and co = "answering (body_with [])"] held
    by blast
  have second: "is_locked s1 ?k
      \<and> api_calls s1 = api_calls idle @ [CreateCall (pc_request p)]
      \<and> fst (createReservation_start utc_runtime s1 (request_for_room 1)) = Inl (JsError in_flight)
      \<and> api_calls (snd (createReservation_start utc_runtime s1 (request_for_room 1)))
          = api_calls s1
      \<and> fst (createReservation_resume
               (snd (createReservation_start utc_runtime s1 (request_for_room 1))) p ?answer)
          = createReservation_receive ?answer"
    using createReservation_in_flight_rejected
      [where s = idle and rt = utc_runtime and first = "request_for_room 1"
         and info = "request_for_room 1" and p = p and ?s1.0 = s1
         and outcome = ?answer] started
    by blast
  have "api_calls (holding ?k) = []"
    by (simp add: holding_def)
  moreover have "api_calls idle = []"
    by (simp add: idle_def)
  moreover have "createReservation_receive ?answer = Inr True"
    by (simp add: createReservation_receive_def body_with_def)
  ultimately show ?thesis
    using held first second started by auto
qed

lemma createReservation_releases:
  "activeReservations (snd (createReservation rt co s info)) (reservationKey rt info) = None"
  by (simp add: createReservation_def createReservation_start_def createReservation_resume_def
      split: prod.splits sum.splits)

lemma date_error_not_in_flight:
  "date_toISOString rt d \<noteq> Inl (JsError in_flight)"
  by (simp add: date_toISOString_def invalid_time_value_def in_flight_def split: js_date.splits)

lemma start_not_in_flight:
  assumes "\<not> is_locked s (reservationKey rt info)"
  shows "fst (createReservation_start rt s info) \<noteq> Inl (JsError in_flight)"
proof (cases "date_toISOString rt
    (case info_date info of DateText t \<Rightarrow> newDate rt t | DateObject d \<Rightarrow> d)")
  case (Inl e)
  with date_error_not_in_flight [of rt "case info_date info of DateText t \<Rightarrow> newDate rt t | DateObject d \<Rightarrow> d"]
  have "e \<noteq> JsError in_flight" by auto
  with Inl assms show ?thesis
    by (simp add: createReservation_start_def createReservation_send_def Let_def)
next
  case (Inr isoString)
  with assms show ?thesis
    by (simp add: createReservation_start_def createReservation_send_def Let_def)
qed

text \<open>
  C6. After createReservation has completed, whatever the store answered (a created
  reservation, a refusal, a failure, no answer at all), the lock map does not hold the
  key of the request, and a following request with this key is not refused as in
  flight. The same holds after the second step of a call that ran interleaved with
  others.
\<close>

theorem createReservation_releases_lock:
  "activeReservations (snd (createReservation rt co s info)) (reservationKey rt info) = None
   \<and> \<not> is_locked (snd (createReservation rt co s info)) (reservationKey rt info)
   \<and> fst (createReservation_start rt (snd (createReservation rt co s info)) info)
        \<noteq> Inl (JsError in_flight)
   \<and> activeReservations (snd (createReservation_resume s' p outcome)) (pc_key p) = None"
proof -
  have free: "\<not> is_locked (snd (createReservation rt co s info)) (reservationKey rt info)"
    by (simp add: is_locked_def createReservation_releases)
  show ?thesis
    using free start_not_in_flight [OF free]
    by (simp add: createReservation_releases createReservation_resume_def)
qed

lemma started_holds_lock:
  assumes "createReservation_start rt s first = (Inr p, s1)"
  shows "is_locked s1 (reservationKey rt first)"
  using assms
  by (auto simp add: createReservation_start_def createReservation_send_def is_locked_def
      Let_def split: sum.splits if_splits prod.splits)

text \<open>
  The \<open>finally\<close> block also runs in a call that was refused as in flight, and it
  deletes the key, which is the lock of the first request. While the first request
  still waits for the store, the lock is gone, and a third request with the same key
  is not refused as in flight.
\<close>

theorem rejected_request_releases_first_lock:
  assumes "createReservation_start rt s first = (Inr p, s1)"
      and "reservationKey rt info = reservationKey rt first"
  shows "is_locked s1 (reservationKey rt first)
     \<and> createReservation_start rt s1 info
         = (Inl (JsError in_flight), release_lock s1 (reservationKey rt first))
     \<and> \<not> is_locked (snd (createReservation_start rt s1 info)) (reservationKey rt first)
     \<and> fst (createReservation_start rt (snd (createReservation_start rt s1 info)) info)
         \<noteq> Inl (JsError in_flight)"
proof -
  have held: "is_locked s1 (reservationKey rt info)"
    using started_holds_lock [OF assms(1)] assms(2) by simp
  then have second: "createReservation_start rt s1 info
      = (Inl (JsError in_flight), release_lock s1 (reservationKey rt info))"
    by (simp add: createReservation_start_def createReservation_send_locked)
  then have free: "\<not> is_locked (snd (createReservation_start rt s1 info)) (reservationKey rt info)"
    by simp
  from held second free start_not_in_flight [OF free] assms(2) show ?thesis
    by simp
qed

text \<open>Two requests for room 1 on an idle tool, the second one entering while the first one waits.\<close>

theorem rejected_request_releases_first_lock_witness:
  "\<exists>p s1. createReservation_start utc_runtime idle (request_for_room 1) = (Inr p, s1)
     \<and> is_locked s1 (reservationKey utc_runtime (request_for_room 1))
     \<and> fst (createReservation_start utc_runtime s1 (request_for_room 1)) = Inl (JsError in_flight)
     \<and> \<not> is_locked (snd (createReservation_start utc_runtime s1 (request_for_room 1)))
           (reservationKey utc_runtime (request_for_room 1))"
proof -
  have "\<exists>p s1. createReservation_start utc_runtime idle (request_for_room 1) = (Inr p, s1)"
    by (simp add: createReservation_start_def createReservation_send_def is_locked_def
        idle_def date_toISOString_def request_for_room_def utc_runtime_def Let_def)
  then obtain p s1 where
    started: "createReservation_start utc_runtime idle (request_for_room 1) = (Inr p, s1)"
    by (elim exE)
  from rejected_request_releases_first_lock [OF started refl] started show ?thesis
    by auto
qed

section \<open>The slot generator\<close>

subsection \<open>Hour labels\<close>

text \<open>The label \<open>HH:00\<close> of an hour determines the hour.\<close>

lemma digit_value_digit_char: "d < 10 \<Longrightarrow> digit_value (digit_char d) = d"
proof -
  assume "d < 10"
  then have "d \<in> {0, 1, 2, 3, 4, 5, 6, 7, 8, 9}" by auto
  then show ?thesis
    by (auto simp add: digit_value_def digit_char_def)
qed

lemma digits_value_snoc: "digits_value (t @ [c]) = 10 * digits_value t + digit_value c"
  by (simp add: digits_value_def)

lemma digits_value_nat_to_string: "digits_value (nat_to_string n) = n"
proof (induction n rule: nat_to_string.induct)
  case (1 n)
  show ?case
  proof (cases "n < 10")
    case True
    then show ?thesis
      by (subst nat_to_string.simps) (simp add: digits_value_def digit_value_digit_char)
  next
    case False
    with 1 have "digits_value (nat_to_string (n div 10)) = n div 10" by simp
    with False show ?thesis
      by (subst nat_to_string.simps) (simp add: digits_value_snoc digit_value_digit_char)
  qed
qed

lemma digits_value_zeros: "digits_value (replicate k (CHR ''0'') @ t) = digits_value t"
proof -
  have "foldl (\<lambda>acc c. 10 * acc + digit_value c) 0 (replicate k (CHR ''0'')) = 0"
  proof (induction k)
    case 0
    show ?case by simp
  next
    case (Suc k)
    have "replicate (Suc k) (CHR ''0'') = replicate k (CHR ''0'') @ [CHR ''0'']"
      by (simp add: replicate_append_same)
    with Suc show ?case
      by (simp add: digit_value_def del: replicate_Suc)
  qed
  then show ?thesis by (simp add: digits_value_def)
qed

lemma hour_of_label_hour_label: "hour_of_label (hour_label h) = h"
  by (simp add: hour_of_label_def hour_label_def padStart2_def digits_value_zeros
      digits_value_nat_to_string)

lemma inj_hour_label: "inj hour_label"
  by (rule inj_on_inverseI [where g = hour_of_label]) (rule hour_of_label_hour_label)

lemma hour_label_eq_iff: "hour_label a = hour_label b \<longleftrightarrow> a = b"
  using inj_hour_label by (auto dest: injD)

subsection \<open>The range of a name\<close>

lemma resolve_range_known:
  "resolve_range ''morning'' = HourRange 9 12"
  "resolve_range ''afternoon'' = HourRange 13 18"
  "resolve_range ''all'' = HourRange 9 18"
  by (simp_all add: resolve_range_def timeRanges_get_def timeRanges_def)

lemma resolve_range_fallback:
  assumes "name \<notin> {''morning'', ''afternoon'', ''all''}"
      and "name \<notin> set object_prototype_properties"
  shows "resolve_range name = HourRange 9 18"
  using assms by (simp add: resolve_range_def timeRanges_get_def timeRanges_def)

lemma resolve_range_inherited:
  assumes "name \<in> set object_prototype_properties"
  shows "resolve_range name = InheritedProperty"
  using assms
  by (auto simp add: resolve_range_def timeRanges_get_def timeRanges_def
      object_prototype_properties_def)

lemma resolve_range_cases:
  "resolve_range name \<in> {HourRange 9 12, HourRange 13 18, HourRange 9 18, InheritedProperty}"
  by (auto simp add: resolve_range_def timeRanges_get_def timeRanges_def split: option.splits)

text \<open>
  The names the code resolves as the spec says: the three names of \<open>timeRanges\<close>
  give their windows, and a name that is neither one of them nor inherited from
  \<open>Object.prototype\<close> gives the full day.
\<close>

theorem resolve_range_by_name:
  "resolve_range ''morning'' = HourRange 9 12
   \<and> resolve_range ''afternoon'' = HourRange 13 18
   \<and> resolve_range ''all'' = HourRange 9 18
   \<and> (name \<notin> {''morning'', ''afternoon'', ''all''}
        \<and> name \<notin> set object_prototype_properties
        \<longrightarrow> resolve_range name = HourRange 9 18
            \<and> range_hours (resolve_range name) = [9, 10, 11, 12, 13, 14, 15, 16, 17])"
  by (simp add: resolve_range_known resolve_range_fallback range_hours_def)

text \<open>The name \<open>evening\<close> gives the full day.\<close>

theorem resolve_range_by_name_witness:
  "''evening'' \<notin> {''morning'', ''afternoon'', ''all''}
   \<and> ''evening'' \<notin> set object_prototype_properties
   \<and> resolve_range ''evening'' = HourRange 9 18"
proof -
  have a: "''evening'' \<notin> {''morning'', ''afternoon'', ''all''}"
    by simp
  have b: "''evening'' \<notin> set object_prototype_properties"
    by (simp add: object_prototype_properties_def)
  from resolve_range_by_name [of "''evening''"] a b
  have "resolve_range ''evening'' = HourRange 9 18"
    by blast
  with a b show ?thesis by blast
qed

text \<open>
  C7 (the code departs from the claim). The claim: the named range is resolved to the
  window of morning, afternoon or the full day, and every other name falls back to the
  full day. The three names resolve as claimed, and a name that is no property of
  \<open>timeRanges\<close> at all falls back to the full day (the lemmas above). The code at
  the name \<open>toString\<close>, which every object inherits: the lookup gives the inherited
  function, the fallback is not taken, the range has no hours, and the search returns
  no slot where the full day has the nine hours from 9 to 17.
\<close>

theorem resolve_range_inherited_name:
  "resolve_range ''toString'' = InheritedProperty
   \<and> range_hours (resolve_range ''toString'') = []
   \<and> range_hours (resolve_range ''all'') = [9, 10, 11, 12, 13, 14, 15, 16, 17]
   \<and> fst (findNextAvailable utc_runtime (answering (body_with [])) idle (search ''toString'' None))
       = Inr \<lparr>availableSlots = [], success = Some True, error = None\<rparr>"
  by (simp add: resolve_range_def timeRanges_get_def timeRanges_def
      object_prototype_properties_def range_hours_def findNextAvailable_def
      findNextAvailable_try_def findNextAvailable_lookup_def findNextAvailable_slots_def
      defaultSlots_def search_def answering_def body_with_def utc_runtime_def idle_def
      date_toISOString_def truthy_text_def Let_def upt_rec_numeral)

subsection \<open>The default slots\<close>

lemma rooms_not_skipped:
  "filter (\<lambda>room. \<not> skips_room preferred room) [1, 4, 5, 6] = spec_rooms preferred"
  by (auto simp add: skips_room_def spec_rooms_def split: option.splits)

lemma defaultSlots_concat:
  "defaultSlots isoString r preferred =
     concat (map (\<lambda>roomId. map (\<lambda>hour.
                    \<lparr>slot_date = split_T_first isoString, slot_roomId = roomId,
                     slot_startTime = hour_label hour,
                     slot_endTime = hour_label (hour + 1)\<rparr>) (range_hours r))
               (filter (\<lambda>room. \<not> skips_room preferred room) [1, 4, 5, 6]))"
  by (simp add: defaultSlots_def)

lemma defaultSlots_keys:
  "map (\<lambda>slot. (slot_roomId slot, slot_startTime slot)) (defaultSlots isoString r preferred)
     = List.product (spec_rooms preferred) (map hour_label (range_hours r))"
proof -
  have "map (\<lambda>slot. (slot_roomId slot, slot_startTime slot))
          (concat (map (\<lambda>roomId. map (\<lambda>hour.
                    \<lparr>slot_date = d, slot_roomId = roomId,
                     slot_startTime = hour_label hour,
                     slot_endTime = hour_label (hour + 1)\<rparr>) hs) rooms))
        = List.product rooms (map hour_label hs)" for d hs rooms
    by (induction rooms) (simp_all add: comp_def)
  then show ?thesis
    by (simp only: defaultSlots_concat rooms_not_skipped)
qed

lemma distinct_range_hours: "distinct (range_hours r)"
  by (simp add: range_hours_def split: range_value.splits)

lemma distinct_spec_rooms: "distinct (spec_rooms preferred)"
  by (simp add: spec_rooms_def split: option.splits)

lemma distinct_defaultSlots_keys:
  "distinct (map (\<lambda>slot. (slot_roomId slot, slot_startTime slot))
      (defaultSlots isoString r preferred))"
  unfolding defaultSlots_keys
  by (intro distinct_product distinct_spec_rooms)
     (simp add: distinct_map distinct_range_hours inj_on_def hour_label_eq_iff)

lemma length_defaultSlots:
  "length (defaultSlots isoString r preferred)
     = length (spec_rooms preferred) * length (range_hours r)"
proof -
  have "length (map (\<lambda>slot. (slot_roomId slot, slot_startTime slot))
          (defaultSlots isoString r preferred))
        = length (spec_rooms preferred) * length (range_hours r)"
    unfolding defaultSlots_keys by simp
  then show ?thesis by simp
qed

lemma filter_reserved_keys:
  "filter_reserved reservedSlots slots =
     filter (\<lambda>slot. (slot_roomId slot, slot_startTime slot)
                      \<notin> set (map (\<lambda>reserved. (rs_roomId reserved, rs_startTime reserved))
                                 reservedSlots))
            slots"
proof -
  have eq: "list_ex (\<lambda>reserved. rs_roomId reserved = slot_roomId slot \<and>
                             rs_startTime reserved = slot_startTime slot) reservedSlots
        \<longleftrightarrow> (slot_roomId slot, slot_startTime slot)
              \<in> set (map (\<lambda>reserved. (rs_roomId reserved, rs_startTime reserved))
                         reservedSlots)" for slot
    by (induction reservedSlots) auto
  show ?thesis
    by (simp only: filter_reserved_def eq)
qed

lemma filter_reserved_one:
  assumes "distinct (map (\<lambda>slot. (slot_roomId slot, slot_startTime slot)) slots)"
      and "c \<in> set slots"
      and "rs_roomId reserved = slot_roomId c"
      and "rs_startTime reserved = slot_startTime c"
  shows "filter_reserved [reserved] slots = filter (\<lambda>x. x \<noteq> c) slots"
  unfolding filter_reserved_def
proof (rule filter_cong [OF refl])
  fix x
  assume x: "x \<in> set slots"
  from assms(1) have inj: "inj_on (\<lambda>slot. (slot_roomId slot, slot_startTime slot)) (set slots)"
    by (simp add: distinct_map)
  have "x = c" if "slot_roomId c = slot_roomId x" and "slot_startTime c = slot_startTime x"
    using inj_onD [OF inj _ x assms(2)] that by simp
  then show "(\<not> list_ex (\<lambda>reserved. rs_roomId reserved = slot_roomId x \<and>
                                     rs_startTime reserved = slot_startTime x) [reserved])
             = (x \<noteq> c)"
    using assms(3,4) by auto
qed

lemma length_filter_other:
  assumes "distinct xs" and "c \<in> set xs"
  shows "length (filter (\<lambda>x. x \<noteq> c) xs) + 1 = length xs"
proof -
  have keep: "filter (\<lambda>x. x \<noteq> c) ys = ys" if "c \<notin> set ys" for ys
    using that by (induction ys) auto
  from assms show ?thesis
    by (induction xs) (auto simp add: keep)
qed

lemma findNextAvailable_of_lookup:
  assumes "findNextAvailable_lookup rt co s options = (Inr (Inr (isoString, result)), s')"
  shows "findNextAvailable rt co s options
           = (Inr (findNextAvailable_slots isoString options result), s')"
  using assms by (simp add: findNextAvailable_def findNextAvailable_try_def)

lemma slots_unreserved:
  assumes "body_data result = None \<or> body_data result = Some []"
  shows "availableSlots (findNextAvailable_slots isoString options result)
           = defaultSlots isoString (resolve_range (timeRange options)) (preferredRoom options)"
  using assms by (auto simp add: findNextAvailable_slots_def Let_def)

lemma slots_filtered:
  "availableSlots (findNextAvailable_slots isoString options result)
     = filter_reserved (case body_data result of Some d \<Rightarrow> d | None \<Rightarrow> [])
         (defaultSlots isoString (resolve_range (timeRange options)) (preferredRoom options))"
  by (simp add: findNextAvailable_slots_def Let_def filter_reserved_def)

lemma lookup_answering:
  "fst (findNextAvailable_lookup utc_runtime (answering b) idle (search name preferred))
     = Inr (Inr (iso_june1, b))"
  by (simp add: findNextAvailable_lookup_def search_def answering_def utc_runtime_def
      date_toISOString_def truthy_text_def iso_june1_def Let_def)

lemma morning_slots:
  "defaultSlots iso_june1 (HourRange 9 12) None =
     [slot_at 1 ''09:00'' ''10:00'', slot_at 1 ''10:00'' ''11:00'', slot_at 1 ''11:00'' ''12:00'',
      slot_at 4 ''09:00'' ''10:00'', slot_at 4 ''10:00'' ''11:00'', slot_at 4 ''11:00'' ''12:00'',
      slot_at 5 ''09:00'' ''10:00'', slot_at 5 ''10:00'' ''11:00'', slot_at 5 ''11:00'' ''12:00'',
      slot_at 6 ''09:00'' ''10:00'', slot_at 6 ''10:00'' ''11:00'', slot_at 6 ''11:00'' ''12:00'']"
  by (simp add: defaultSlots_def range_hours_def skips_room_def hour_label_def padStart2_def
      nat_to_string.simps digit_char_def split_T_first_def iso_june1_def slot_at_def
      upt_rec_numeral)

text \<open>
  C8. When the lookup has answered and names no reservation (\<open>data\<close> is empty or no
  array), findNextAvailable returns the default slots: one for each room searched and
  each hour of the range, in this order, so rooms times hours many; the rooms searched
  are all four, or the preferred room alone. When the lookup names one reservation
  with the room and the start time of a default slot, the slots returned are the
  default slots without that one: it is absent, every other one is kept, and the count
  is one less.
\<close>

theorem findNextAvailable_candidates:
  assumes "findNextAvailable_lookup rt co s options = (Inr (Inr (isoString, result)), s')"
  shows "\<exists>r. fst (findNextAvailable rt co s options) = Inr r
     \<and> (body_data result = None \<or> body_data result = Some [] \<longrightarrow>
          availableSlots r
            = defaultSlots isoString (resolve_range (timeRange options)) (preferredRoom options)
          \<and> map (\<lambda>slot. (slot_roomId slot, slot_startTime slot)) (availableSlots r)
              = List.product (spec_rooms (preferredRoom options))
                  (map hour_label (range_hours (resolve_range (timeRange options))))
          \<and> length (availableSlots r)
              = length (spec_rooms (preferredRoom options))
                  * length (range_hours (resolve_range (timeRange options))))
     \<and> (\<forall>c reserved.
          body_data result = Some [reserved]
          \<and> c \<in> set (defaultSlots isoString (resolve_range (timeRange options))
                        (preferredRoom options))
          \<and> rs_roomId reserved = slot_roomId c \<and> rs_startTime reserved = slot_startTime c
          \<longrightarrow>
            c \<notin> set (availableSlots r)
            \<and> availableSlots r
                = filter (\<lambda>x. x \<noteq> c)
                    (defaultSlots isoString (resolve_range (timeRange options))
                       (preferredRoom options))
            \<and> length (availableSlots r) + 1
                = length (defaultSlots isoString (resolve_range (timeRange options))
                            (preferredRoom options)))"
proof -
  let ?slots = "defaultSlots isoString (resolve_range (timeRange options)) (preferredRoom options)"
  let ?r = "findNextAvailable_slots isoString options result"
  have keys: "distinct (map (\<lambda>slot. (slot_roomId slot, slot_startTime slot)) ?slots)"
    by (rule distinct_defaultSlots_keys)
  then have dist: "distinct ?slots"
    by (simp add: distinct_map)
  have ret: "fst (findNextAvailable rt co s options) = Inr ?r"
    by (simp add: findNextAvailable_of_lookup [OF assms])
  have none: "availableSlots ?r = ?slots
      \<and> map (\<lambda>slot. (slot_roomId slot, slot_startTime slot)) (availableSlots ?r)
          = List.product (spec_rooms (preferredRoom options))
              (map hour_label (range_hours (resolve_range (timeRange options))))
      \<and> length (availableSlots ?r)
          = length (spec_rooms (preferredRoom options))
              * length (range_hours (resolve_range (timeRange options)))"
    if "body_data result = None \<or> body_data result = Some []"
    using slots_unreserved [OF that, of isoString options]
    by (simp add: defaultSlots_keys length_defaultSlots)
  have one: "c \<notin> set (availableSlots ?r)
      \<and> availableSlots ?r = filter (\<lambda>x. x \<noteq> c) ?slots
      \<and> length (availableSlots ?r) + 1 = length ?slots"
    if "body_data result = Some [reserved]" and "c \<in> set ?slots"
      and "rs_roomId reserved = slot_roomId c" and "rs_startTime reserved = slot_startTime c"
    for c reserved
  proof -
    have "availableSlots ?r = filter_reserved [reserved] ?slots"
      using that(1) by (simp add: slots_filtered)
    also have "\<dots> = filter (\<lambda>x. x \<noteq> c) ?slots"
      by (rule filter_reserved_one [OF keys that(2,3,4)])
    finally have eq: "availableSlots ?r = filter (\<lambda>x. x \<noteq> c) ?slots" .
    with length_filter_other [OF dist that(2)] show ?thesis by simp
  qed
  from ret none one show ?thesis by blast
qed

text \<open>
  The morning of 1 June 2024: twelve slots with no reservation, and eleven, without
  the slot of room 4 at 10:00, when that one is reserved.
\<close>

theorem findNextAvailable_candidates_witness:
  "fst (findNextAvailable_lookup utc_runtime (answering (body_with [])) idle
          (search ''morning'' None)) = Inr (Inr (iso_june1, body_with []))
   \<and> (\<exists>r. fst (findNextAvailable utc_runtime (answering (body_with [])) idle
                 (search ''morning'' None)) = Inr r
          \<and> length (availableSlots r) = 12)
   \<and> (\<exists>r. fst (findNextAvailable utc_runtime
                 (answering (body_with [reserved_at 4 ''10:00'' ''11:00''])) idle
                 (search ''morning'' None)) = Inr r
          \<and> slot_at 4 ''10:00'' ''11:00'' \<notin> set (availableSlots r)
          \<and> length (availableSlots r) + 1 = 12)"
proof -
  let ?opts = "search ''morning'' None"
  let ?one = "body_with [reserved_at 4 ''10:00'' ''11:00'']"
  let ?c = "slot_at 4 ''10:00'' ''11:00''"
  have range: "resolve_range (timeRange ?opts) = HourRange 9 12"
    by (simp add: search_def resolve_range_known)
  have rooms: "preferredRoom ?opts = None"
    by (simp add: search_def)
  have l0: "findNextAvailable_lookup utc_runtime (answering (body_with [])) idle ?opts
      = (Inr (Inr (iso_june1, body_with [])),
         snd (findNextAvailable_lookup utc_runtime (answering (body_with [])) idle ?opts))"
    using lookup_answering [of "body_with []" "''morning''" None]
    by (simp add: prod_eq_iff)
  have l1: "findNextAvailable_lookup utc_runtime (answering ?one) idle ?opts
      = (Inr (Inr (iso_june1, ?one)),
         snd (findNextAvailable_lookup utc_runtime (answering ?one) idle ?opts))"
    using lookup_answering [of ?one "''morning''" None]
    by (simp add: prod_eq_iff)
  from findNextAvailable_candidates [OF l0] obtain r0 where
    r0: "fst (findNextAvailable utc_runtime (answering (body_with [])) idle ?opts) = Inr r0"
    and n0: "body_data (body_with []) = None \<or> body_data (body_with []) = Some [] \<longrightarrow>
          length (availableSlots r0)
            = length (spec_rooms (preferredRoom ?opts))
                * length (range_hours (resolve_range (timeRange ?opts)))"
    by (elim exE conjE) blast
  from n0 have len0: "length (availableSlots r0) = 12"
    by (simp add: body_with_def range rooms spec_rooms_def range_hours_def)
  from findNextAvailable_candidates [OF l1] obtain r1 where
    r1: "fst (findNextAvailable utc_runtime (answering ?one) idle ?opts) = Inr r1"
    and n1: "body_data ?one = Some [reserved_at 4 ''10:00'' ''11:00'']
          \<and> ?c \<in> set (defaultSlots iso_june1 (resolve_range (timeRange ?opts))
                        (preferredRoom ?opts))
          \<and> rs_roomId (reserved_at 4 ''10:00'' ''11:00'') = slot_roomId ?c
          \<and> rs_startTime (reserved_at 4 ''10:00'' ''11:00'') = slot_startTime ?c
          \<longrightarrow>
            ?c \<notin> set (availableSlots r1)
            \<and> length (availableSlots r1) + 1
                = length (defaultSlots iso_june1 (resolve_range (timeRange ?opts))
                            (preferredRoom ?opts))"
    by (elim exE conjE) blast
  have "?c \<in> set (defaultSlots iso_june1 (resolve_range (timeRange ?opts)) (preferredRoom ?opts))"
    by (simp add: range rooms morning_slots)
  with n1 have "?c \<notin> set (availableSlots r1) \<and> length (availableSlots r1) + 1 = 12"
    by (simp add: body_with_def reserved_at_def slot_at_def range rooms morning_slots)
  with r0 len0 r1 lookup_answering [of "body_with []" "''morning''" None] show ?thesis
    by auto
qed

subsection \<open>Filtering the reserved slots\<close>

lemma defaultSlots_start_on_grid:
  assumes "slot \<in> set (defaultSlots isoString r preferred)"
  shows "slot_startTime slot \<in> range hour_label"
  using assms by (auto simp add: defaultSlots_def split: if_splits)

lemma hour_label_tail: "drop (length (hour_label h) - 3) (hour_label h) = '':00''"
  by (simp add: hour_label_def)

lemma half_past_off_grid: "''09:30'' \<notin> range hour_label"
proof
  assume "''09:30'' \<in> range hour_label"
  then obtain h where h: "hour_label h = ''09:30''" by auto
  from hour_label_tail [of h] show False
    unfolding h by simp
qed

text \<open>
  C9 (amended). The claim: a candidate slot is removed when its window intersects a
  reservation, also when the reservation starts off the slot grid, as at 09:30. The
  code compares texts: the slots returned are the default slots whose pair of room and
  start time is not the pair of room and start time of any fetched reservation; a
  reservation whose start time is no label \<open>HH:00\<close> of the grid removes no slot.
\<close>

theorem findNextAvailable_filters_exact_start:
  assumes "findNextAvailable_lookup rt co s options = (Inr (Inr (isoString, result)), s')"
  shows "\<exists>r. fst (findNextAvailable rt co s options) = Inr r
     \<and> availableSlots r
         = filter (\<lambda>slot. (slot_roomId slot, slot_startTime slot)
                            \<notin> set (map (\<lambda>reserved. (rs_roomId reserved, rs_startTime reserved))
                                      (case body_data result of Some d \<Rightarrow> d | None \<Rightarrow> [])))
             (defaultSlots isoString (resolve_range (timeRange options)) (preferredRoom options))
     \<and> ((\<forall>reserved \<in> set (case body_data result of Some d \<Rightarrow> d | None \<Rightarrow> []).
            rs_startTime reserved \<notin> range hour_label) \<longrightarrow>
          availableSlots r
            = defaultSlots isoString (resolve_range (timeRange options)) (preferredRoom options))"
proof -
  let ?slots = "defaultSlots isoString (resolve_range (timeRange options)) (preferredRoom options)"
  let ?reserved = "case body_data result of Some d \<Rightarrow> d | None \<Rightarrow> []"
  let ?r = "findNextAvailable_slots isoString options result"
  let ?keep = "\<lambda>slot. (slot_roomId slot, slot_startTime slot)
                  \<notin> set (map (\<lambda>reserved. (rs_roomId reserved, rs_startTime reserved)) ?reserved)"
  have ret: "fst (findNextAvailable rt co s options) = Inr ?r"
    by (simp add: findNextAvailable_of_lookup [OF assms])
  have filtered: "availableSlots ?r = filter ?keep ?slots"
    by (simp only: slots_filtered filter_reserved_keys)
  have "filter ?keep ?slots = ?slots"
    if off: "\<forall>reserved \<in> set ?reserved. rs_startTime reserved \<notin> range hour_label"
  proof (rule filter_True, rule ballI)
    fix slot
    assume "slot \<in> set ?slots"
    then have "slot_startTime slot \<in> range hour_label"
      by (rule defaultSlots_start_on_grid)
    with off show "?keep slot" by auto
  qed
  with ret filtered show ?thesis by auto
qed

text \<open>A reservation of room 1 from 09:30 to 10:30: all twelve morning slots are returned.\<close>

theorem findNextAvailable_filters_exact_start_witness:
  "fst (findNextAvailable_lookup utc_runtime
          (answering (body_with [reserved_at 1 ''09:30'' ''10:30''])) idle
          (search ''morning'' None))
     = Inr (Inr (iso_june1, body_with [reserved_at 1 ''09:30'' ''10:30'']))
   \<and> (\<exists>r. fst (findNextAvailable utc_runtime
                 (answering (body_with [reserved_at 1 ''09:30'' ''10:30''])) idle
                 (search ''morning'' None)) = Inr r
          \<and> availableSlots r = defaultSlots iso_june1 (HourRange 9 12) None
          \<and> slot_at 1 ''09:00'' ''10:00'' \<in> set (availableSlots r))"
proof -
  let ?opts = "search ''morning'' None"
  let ?b = "body_with [reserved_at 1 ''09:30'' ''10:30'']"
  have range: "resolve_range (timeRange ?opts) = HourRange 9 12"
    by (simp add: search_def resolve_range_known)
  have rooms: "preferredRoom ?opts = None"
    by (simp add: search_def)
  have l: "findNextAvailable_lookup utc_runtime (answering ?b) idle ?opts
      = (Inr (Inr (iso_june1, ?b)),
         snd (findNextAvailable_lookup utc_runtime (answering ?b) idle ?opts))"
    using lookup_answering [of ?b "''morning''" None]
    by (simp add: prod_eq_iff)
  have off: "\<forall>reserved \<in> set (case body_data ?b of Some d \<Rightarrow> d | None \<Rightarrow> []).
               rs_startTime reserved \<notin> range hour_label"
    using half_past_off_grid by (simp add: body_with_def reserved_at_def)
  from findNextAvailable_filters_exact_start [OF l] obtain r where
    r: "fst (findNextAvailable utc_runtime (answering ?b) idle ?opts) = Inr r"
    and all: "(\<forall>reserved \<in> set (case body_data ?b of Some d \<Rightarrow> d | None \<Rightarrow> []).
                 rs_startTime reserved \<notin> range hour_label) \<longrightarrow>
              availableSlots r
                = defaultSlots iso_june1 (resolve_range (timeRange ?opts)) (preferredRoom ?opts)"
    by (elim exE conjE) blast
  from all off have "availableSlots r = defaultSlots iso_june1 (HourRange 9 12) None"
    by (simp only: range rooms)
  moreover from this have "slot_at 1 ''09:00'' ''10:00'' \<in> set (availableSlots r)"
    by (simp add: morning_slots)
  ultimately show ?thesis
    using r lookup_answering [of ?b "''morning''" None] by auto
qed

text \<open>
  The claim of C9 fails: with the reservation of room 1 from 09:30 to 10:30, the slots
  of room 1 from 09:00 to 10:00 and from 10:00 to 11:00 are returned, and the windows
  of both intersect the reservation.
\<close>

theorem findNextAvailable_keeps_intersecting_slot:
  "fst (findNextAvailable utc_runtime
          (answering (body_with [reserved_at 1 ''09:30'' ''10:30''])) idle
          (search ''morning'' (Some 1)))
     = Inr \<lparr>availableSlots =
              [slot_at 1 ''09:00'' ''10:00'', slot_at 1 ''10:00'' ''11:00'',
               slot_at 1 ''11:00'' ''12:00''],
            success = Some True, error = None\<rparr>
   \<and> spec_slot_intersects (slot_at 1 ''09:00'' ''10:00'') (reserved_at 1 ''09:30'' ''10:30'')
   \<and> spec_slot_intersects (slot_at 1 ''10:00'' ''11:00'') (reserved_at 1 ''09:30'' ''10:30'')"
  by (simp add: findNextAvailable_def findNextAvailable_try_def findNextAvailable_lookup_def
      findNextAvailable_slots_def search_def answering_def body_with_def utc_runtime_def
      idle_def date_toISOString_def truthy_text_def Let_def resolve_range_known
      defaultSlots_def range_hours_def skips_room_def hour_label_def padStart2_def
      nat_to_string.simps digit_char_def split_T_first_def slot_at_def reserved_at_def
      filter_reserved_def spec_slot_intersects_def spec_minutes_def digit_value_def)

subsection \<open>Failures\<close>

lemma lookup_refused:
  assumes "fst (findNextAvailable_lookup rt co s options) = Inr (Inl refused)"
  shows "\<exists>m. m \<noteq> [] \<and> failure_object refused m"
  using assms
  by (auto simp add: findNextAvailable_lookup_def failure_object_def truthy_text_def Let_def
      split: sum.splits if_splits option.splits)

lemma lookup_of_refusal:
  assumes "(case startFrom options of
              DateText t \<Rightarrow> parseDateString co t
            | DateObject d \<Rightarrow> Inr d) = Inr d"
      and "truthy_text (validateDate co d)"
  shows "fst (findNextAvailable_lookup rt co s options)
           = Inr (Inl \<lparr>availableSlots = [], success = Some False,
                       error = validateDate co d\<rparr>)"
  using assms by (simp add: findNextAvailable_lookup_def)

lemma lookup_not_ok:
  assumes "(case startFrom options of
              DateText t \<Rightarrow> parseDateString co t
            | DateObject d \<Rightarrow> Inr d) = Inr d"
      and "\<not> truthy_text (validateDate co d)"
      and "date_toISOString rt d = Inr isoString"
      and "fetch co (FindNextCall \<lparr>fn_date = isoString, fn_timeRange = timeRange options,
                                    fn_preferredRoom = preferredRoom options\<rparr>) = Inr response"
      and "\<not> ok response"
  shows "fst (findNextAvailable_lookup rt co s options) = Inl (JsError availability_failed)"
  using assms by (simp add: findNextAvailable_lookup_def Let_def)

lemma lookup_answered:
  assumes "fst (findNextAvailable_lookup rt co s options) = Inr (Inr (isoString, result))"
  shows "\<exists>d call response.
           (case startFrom options of
              DateText t \<Rightarrow> parseDateString co t
            | DateObject d \<Rightarrow> Inr d) = Inr d
           \<and> date_toISOString rt d = Inr isoString
           \<and> fetch co call = Inr response \<and> ok response
           \<and> json_body response = Inr result"
  using assms
  by (auto simp add: findNextAvailable_lookup_def Let_def split: sum.splits if_splits)

lemma success_of_slots: "success (findNextAvailable_slots isoString options result) = Some True"
  by (simp add: findNextAvailable_slots_def Let_def)

lemma findNextAvailable_cases:
  "fst (findNextAvailable rt co s options) =
     (case fst (findNextAvailable_lookup rt co s options) of
        Inl e \<Rightarrow>
          Inr \<lparr>availableSlots = [], success = Some False,
               error = Some (case e of JsError m \<Rightarrow> m | NonError \<Rightarrow> unknown_error)\<rparr>
      | Inr (Inl refused) \<Rightarrow> Inr refused
      | Inr (Inr (isoString, result)) \<Rightarrow>
          Inr (findNextAvailable_slots isoString options result))"
  by (simp add: findNextAvailable_def findNextAvailable_try_def split: prod.splits sum.splits)

lemma fixed_texts_not_empty: "unknown_error \<noteq> []" "availability_failed \<noteq> []"
  by (simp_all add: unknown_error_def availability_failed_def)

text \<open>
  C10 (amended). The claim: findNextAvailable never throws; it always returns an
  object, and on any failure the object has no slots, \<open>success\<close> false and a
  human-readable error message. The code always returns an object, with \<open>success\<close>
  true or with no slots and \<open>success\<close> false, and it is the latter whenever the
  first part throws, the validator refuses the date, the date is invalid, or the lookup
  is rejected or answers not \<open>ok\<close>. Its error text is the text of the validator, which
  is not empty, when the date is refused; the fixed text of the failed availability
  check when the lookup answers not \<open>ok\<close>; the fixed text of the unknown error when
  the value thrown is no \<open>Error\<close>; and the message of the \<open>Error\<close> thrown, as it
  is, otherwise. The two fixed texts are not empty; a message passed on may be.
\<close>

theorem findNextAvailable_never_throws:
  "\<exists>r. fst (findNextAvailable rt co s options) = Inr r
     \<and> (success r = Some True \<or> (\<exists>m. failure_object r m))
     \<and> (case fst (findNextAvailable_lookup rt co s options) of
          Inl (JsError m) \<Rightarrow> failure_object r m
        | Inl NonError \<Rightarrow> failure_object r unknown_error
        | Inr (Inl refused) \<Rightarrow> r = refused \<and> (\<exists>m. m \<noteq> [] \<and> failure_object r m)
        | Inr (Inr answered) \<Rightarrow> success r = Some True)
     \<and> unknown_error \<noteq> [] \<and> availability_failed \<noteq> []
     \<and> (\<forall>d. (case startFrom options of
                  DateText t \<Rightarrow> parseDateString co t
                | DateObject d \<Rightarrow> Inr d) = Inr d
              \<and> truthy_text (validateDate co d) \<longrightarrow>
              (\<exists>m. m \<noteq> [] \<and> validateDate co d = Some m \<and> failure_object r m))
     \<and> (\<forall>d isoString response.
            (case startFrom options of
               DateText t \<Rightarrow> parseDateString co t
             | DateObject d \<Rightarrow> Inr d) = Inr d
            \<and> \<not> truthy_text (validateDate co d)
            \<and> date_toISOString rt d = Inr isoString
            \<and> fetch co (FindNextCall \<lparr>fn_date = isoString, fn_timeRange = timeRange options,
                                       fn_preferredRoom = preferredRoom options\<rparr>) = Inr response
            \<and> \<not> ok response \<longrightarrow>
            failure_object r availability_failed)
     \<and> (startFrom options = DateObject InvalidDate \<longrightarrow> (\<exists>m. failure_object r m))
     \<and> ((\<forall>call. case fetch co call of Inl e \<Rightarrow> True | Inr response \<Rightarrow> \<not> ok response)
          \<longrightarrow> (\<exists>m. failure_object r m))"
proof -
  let ?lookup = "fst (findNextAvailable_lookup rt co s options)"
  let ?target = "case startFrom options of
                   DateText t \<Rightarrow> parseDateString co t
                 | DateObject d \<Rightarrow> Inr d"
  have "\<exists>r. fst (findNextAvailable rt co s options) = Inr r"
    by (simp add: findNextAvailable_cases split: sum.splits prod.splits)
  then obtain r where r: "fst (findNextAvailable rt co s options) = Inr r"
    by (elim exE)
  have thrown: "failure_object r (case e of JsError m \<Rightarrow> m | NonError \<Rightarrow> unknown_error)"
    if "?lookup = Inl e" for e
    using r that by (auto simp add: findNextAvailable_cases failure_object_def)
  have refused: "r = v \<and> (\<exists>m. m \<noteq> [] \<and> failure_object r m)"
    if "?lookup = Inr (Inl v)" for v
    using r that lookup_refused [OF that] by (simp add: findNextAvailable_cases)
  have answered: "success r = Some True" if "?lookup = Inr (Inr answered)" for answered
    using r that by (cases answered) (auto simp add: findNextAvailable_cases success_of_slots)
  have shape: "case ?lookup of
          Inl (JsError m) \<Rightarrow> failure_object r m
        | Inl NonError \<Rightarrow> failure_object r unknown_error
        | Inr (Inl refused) \<Rightarrow> r = refused \<and> (\<exists>m. m \<noteq> [] \<and> failure_object r m)
        | Inr (Inr answered) \<Rightarrow> success r = Some True"
    using thrown refused answered
    by (auto split: sum.splits js_exn.splits)
  then have either: "success r = Some True \<or> (\<exists>m. failure_object r m)"
    by (auto split: sum.splits js_exn.splits)
  have not_answered: "\<exists>m. failure_object r m" if "\<And>answered. ?lookup \<noteq> Inr (Inr answered)"
    using shape that by (auto split: sum.splits js_exn.splits)
  have by_validator: "\<exists>m. m \<noteq> [] \<and> validateDate co d = Some m \<and> failure_object r m"
    if "?target = Inr d" and "truthy_text (validateDate co d)" for d
  proof -
    from refused [OF lookup_of_refusal [OF that]]
    have "r = \<lparr>availableSlots = [], success = Some False, error = validateDate co d\<rparr>"
      by simp
    with that(2) show ?thesis
      by (auto simp add: failure_object_def truthy_text_def split: option.splits)
  qed
  have by_status: "failure_object r availability_failed"
    if "?target = Inr d" and "\<not> truthy_text (validateDate co d)"
      and "date_toISOString rt d = Inr isoString"
      and "fetch co (FindNextCall \<lparr>fn_date = isoString, fn_timeRange = timeRange options,
                                    fn_preferredRoom = preferredRoom options\<rparr>) = Inr response"
      and "\<not> ok response"
    for d isoString response
    using thrown [OF lookup_not_ok [OF that]] by simp
  have invalid: "\<exists>m. failure_object r m" if "startFrom options = DateObject InvalidDate"
  proof (rule not_answered)
    fix answered
    show "?lookup \<noteq> Inr (Inr answered)"
    proof
      assume "?lookup = Inr (Inr answered)"
      then have "?lookup = Inr (Inr (fst answered, snd answered))" by simp
      from lookup_answered [OF this] that show False
        by (auto simp add: date_toISOString_def)
    qed
  qed
  have unanswered: "\<exists>m. failure_object r m"
    if all: "\<forall>call. case fetch co call of Inl e \<Rightarrow> True | Inr response \<Rightarrow> \<not> ok response"
  proof (rule not_answered)
    fix answered
    show "?lookup \<noteq> Inr (Inr answered)"
    proof
      assume "?lookup = Inr (Inr answered)"
      then have "?lookup = Inr (Inr (fst answered, snd answered))" by simp
      from lookup_answered [OF this] obtain call response where
        "fetch co call = Inr response" "ok response"
        by blast
      with all [rule_format, of call] show False by simp
    qed
  qed
  from r either shape by_validator by_status invalid unanswered show ?thesis
    by (intro exI [of _ r] conjI allI impI fixed_texts_not_empty) blast+
qed

text \<open>
  An invalid date, which the validator refuses; a valid date with a server that answers
  not \<open>ok\<close>; and a valid date with a server that cannot be reached.
\<close>

theorem findNextAvailable_never_throws_witness:
  "startFrom (search ''all'' None\<lparr>startFrom := DateObject InvalidDate\<rparr>) = DateObject InvalidDate
   \<and> truthy_text (validateDate (answering (body_with [])) InvalidDate)
   \<and> fetch (responding \<lparr>ok = False, json_body = Inr (body_with [])\<rparr>)
        (FindNextCall \<lparr>fn_date = iso_june1, fn_timeRange = ''all'', fn_preferredRoom = None\<rparr>)
       = Inr \<lparr>ok = False, json_body = Inr (body_with [])\<rparr>
   \<and> (\<forall>call. case fetch unreachable call of Inl e \<Rightarrow> True | Inr response \<Rightarrow> \<not> ok response)
   \<and> (\<exists>r. fst (findNextAvailable utc_runtime (answering (body_with [])) idle
                 (search ''all'' None\<lparr>startFrom := DateObject InvalidDate\<rparr>)) = Inr r
          \<and> failure_object r ''Invalid date'')
   \<and> (\<exists>r. fst (findNextAvailable utc_runtime
                 (responding \<lparr>ok = False, json_body = Inr (body_with [])\<rparr>) idle
                 (search ''all'' None)) = Inr r
          \<and> failure_object r availability_failed)
   \<and> (\<exists>r. fst (findNextAvailable utc_runtime unreachable idle (search ''all'' None)) = Inr r
          \<and> (\<exists>m. failure_object r m))"
proof -
  let ?bad = "search ''all'' None\<lparr>startFrom := DateObject InvalidDate\<rparr>"
  let ?good = "search ''all'' None"
  let ?no = "\<lparr>ok = False, json_body = Inr (body_with [])\<rparr>"
  have a: "startFrom ?bad = DateObject InvalidDate"
    by simp
  have ta: "(case startFrom ?bad of
               DateText t \<Rightarrow> parseDateString (answering (body_with [])) t
             | DateObject d \<Rightarrow> Inr d) = Inr InvalidDate"
    by simp
  have va: "truthy_text (validateDate (answering (body_with [])) InvalidDate)"
    by (simp add: answering_def truthy_text_def)
  have b: "\<forall>call. case fetch unreachable call of Inl e \<Rightarrow> True | Inr response \<Rightarrow> \<not> ok response"
    by (simp add: unreachable_def)
  have tg: "(case startFrom ?good of
               DateText t \<Rightarrow> parseDateString (responding ?no) t
             | DateObject d \<Rightarrow> Inr d) = Inr (ValidDate june1)"
    by (simp add: search_def)
  have vg: "\<not> truthy_text (validateDate (responding ?no) (ValidDate june1))"
    by (simp add: responding_def truthy_text_def)
  have ig: "date_toISOString utc_runtime (ValidDate june1) = Inr iso_june1"
    by (simp add: date_toISOString_def utc_runtime_def iso_june1_def)
  have fg: "fetch (responding ?no)
              (FindNextCall \<lparr>fn_date = iso_june1, fn_timeRange = timeRange ?good,
                             fn_preferredRoom = preferredRoom ?good\<rparr>) = Inr ?no"
    by (simp add: responding_def)
  have fg': "fetch (responding ?no)
              (FindNextCall \<lparr>fn_date = iso_june1, fn_timeRange = ''all'',
                             fn_preferredRoom = None\<rparr>) = Inr ?no"
    by (simp add: responding_def)
  have ng: "\<not> ok ?no"
    by simp
  from findNextAvailable_never_throws [of utc_runtime "answering (body_with [])" idle ?bad]
  obtain r1 where
    r1: "fst (findNextAvailable utc_runtime (answering (body_with [])) idle ?bad) = Inr r1"
    and v1: "\<forall>d. (case startFrom ?bad of
                     DateText t \<Rightarrow> parseDateString (answering (body_with [])) t
                   | DateObject d \<Rightarrow> Inr d) = Inr d
                 \<and> truthy_text (validateDate (answering (body_with [])) d) \<longrightarrow>
                 (\<exists>m. m \<noteq> [] \<and> validateDate (answering (body_with [])) d = Some m
                      \<and> failure_object r1 m)"
    and i1: "startFrom ?bad = DateObject InvalidDate \<longrightarrow> (\<exists>m. failure_object r1 m)"
    by (elim exE conjE) blast
  from v1 ta va have "\<exists>m. validateDate (answering (body_with [])) InvalidDate = Some m
      \<and> failure_object r1 m"
    by blast
  then have f1: "failure_object r1 ''Invalid date''"
    by (simp add: answering_def)
  from findNextAvailable_never_throws [of utc_runtime "responding ?no" idle ?good]
  obtain r2 where
    r2: "fst (findNextAvailable utc_runtime (responding ?no) idle ?good) = Inr r2"
    and s2: "\<forall>d isoString response.
            (case startFrom ?good of
               DateText t \<Rightarrow> parseDateString (responding ?no) t
             | DateObject d \<Rightarrow> Inr d) = Inr d
            \<and> \<not> truthy_text (validateDate (responding ?no) d)
            \<and> date_toISOString utc_runtime d = Inr isoString
            \<and> fetch (responding ?no)
                 (FindNextCall \<lparr>fn_date = isoString, fn_timeRange = timeRange ?good,
                                fn_preferredRoom = preferredRoom ?good\<rparr>) = Inr response
            \<and> \<not> ok response \<longrightarrow>
            failure_object r2 availability_failed"
    by (elim exE conjE) blast
  from s2 tg vg ig fg ng have f2: "failure_object r2 availability_failed"
    by blast
  from findNextAvailable_never_throws [of utc_runtime unreachable idle ?good]
  obtain r3 where
    r3: "fst (findNextAvailable utc_runtime unreachable idle ?good) = Inr r3"
    and u3: "(\<forall>call. case fetch unreachable call of Inl e \<Rightarrow> True
                     | Inr response \<Rightarrow> \<not> ok response)
             \<longrightarrow> (\<exists>m. failure_object r3 m)"
    by (elim exE conjE) blast
  from u3 b have f3: "\<exists>m. failure_object r3 m"
    by blast
  from a va fg' b r1 f1 r2 f2 r3 f3 show ?thesis
    by (intro conjI exI [of _ r1] exI [of _ r2] exI [of _ r3])
qed

text \<open>
  The claim of C10 fails in its last part: when the date parser throws an \<open>Error\<close>
  made without a message, the object returned has the empty text as its error.
\<close>

theorem findNextAvailable_empty_error_text:
  "fst (findNextAvailable utc_runtime silent_parser idle
         \<lparr>timeRange = ''all'', preferredRoom = None, startFrom = DateText ''tomorrow''\<rparr>)
     = Inr \<lparr>availableSlots = [], success = Some False, error = Some []\<rparr>"
  by (simp add: findNextAvailable_cases findNextAvailable_lookup_def silent_parser_def)

end
